theory Spec2Isabelle
  imports Main
begin

section \<open>The RPC correlation layer of \<open>REPLServer\<close>\<close>

text \<open>
  \<open>REPLServer\<close> keeps a counter \<open>#reqID\<close> and a table \<open>#pendingReqs\<close> from request ids to
  the \<open>{resolve, reject}\<close> callbacks of the promise that \<open>request\<close> created. Both callbacks
  of one entry close over the same promise, so an entry is modelled by the handle of that
  promise in an explicit store of promises: a handle is the position at which the promise
  was allocated, and \<open>new Promise\<close> always allocates a fresh one.
\<close>

datatype ('r, 'e) promise_state = Pending | Resolved 'r | Rejected 'e

datatype JSCResponsePromiseCallbacks = Callbacks (promise_of: nat)

record 'p Request =
  req_id :: nat
  req_method :: string
  req_params :: 'p

text \<open>
  What \<open>onmessage\<close> has in \<open>data\<close> after \<open>JSONParse(wsDataToString(event.data))\<close>.
  \<open>Unparsable\<close> stands for a text on which \<open>JSONParse\<close> throws and for the parsed value
  \<open>null\<close>, on which the destructuring \<open>const { id } = data\<close> throws. In \<open>Data\<close>, the id is
  \<open>Some n\<close> when the property \<open>id\<close> is the number \<open>n\<close>, and \<open>None\<close> when it is absent or is not
  a natural number: the keys of \<open>#pendingReqs\<close> are values of \<open>#reqID\<close>, so \<open>Map.get\<close> finds
  nothing for any other id. \<open>data_error\<close> and \<open>data_result\<close> are \<open>Some\<close> when the property is
  in the frame (\<open>'error' in data\<close>, \<open>'result' in data\<close>).
\<close>

datatype ('r, 'e) inbound =
    Unparsable
  | Data (data_id: "nat option") (data_error: "'e option") (data_result: "'r option")

text \<open>The values thrown inside the \<open>try\<close> block of \<open>onmessage\<close>.\<close>

datatype thrown_in_onmessage =
    JSONParse_failed
  | Response_with_no_result_or_error "nat option"
  | Message_for_unknown_request_ID "nat option"

text \<open>\<open>Map.get\<close> and \<open>Map.delete\<close> with the id of a frame as the key.\<close>

definition MapGet :: "(nat \<rightharpoonup> 'a) \<Rightarrow> nat option \<Rightarrow> 'a option" where
  "MapGet m key = (case key of None \<Rightarrow> None | Some n \<Rightarrow> m n)"

definition MapDelete :: "(nat \<rightharpoonup> 'a) \<Rightarrow> nat option \<Rightarrow> (nat \<rightharpoonup> 'a)" where
  "MapDelete m key = (case key of None \<Rightarrow> m | Some n \<Rightarrow> m(n := None))"

record ('r, 'e, 'p) REPLServer =
  reqID :: nat
  pendingReqs :: "nat \<rightharpoonup> JSCResponsePromiseCallbacks"
  promises :: "('r, 'e) promise_state list"
  sent :: "'p Request list"
  console_error :: "thrown_in_onmessage list"

definition init_server :: "('r, 'e, 'p) REPLServer" where
  "init_server =
     \<lparr>reqID = 0, pendingReqs = Map.empty, promises = [], sent = [], console_error = []\<rparr>"

text \<open>
  \<open>++this.#reqID\<close> on a JavaScript number that holds an integer: the sum is exact below
  \<open>2^53\<close>; at \<open>2^53\<close> the sum \<open>2^53 + 1\<close> is not a double and rounds back to \<open>2^53\<close>.
\<close>

definition increment :: "nat \<Rightarrow> nat" where
  "increment n = (if n < 2 ^ 53 then n + 1 else n)"

text \<open>
  The \<open>resolve\<close> and \<open>reject\<close> functions of a promise settle it when it is pending and do
  nothing otherwise.
\<close>

definition settle ::
  "nat \<Rightarrow> ('r, 'e) promise_state \<Rightarrow> ('r, 'e) promise_state list \<Rightarrow> ('r, 'e) promise_state list"
where
  "settle h outcome ps = (if h < length ps \<and> ps ! h = Pending then ps[h := outcome] else ps)"

definition resolve ::
  "JSCResponsePromiseCallbacks \<Rightarrow> 'r \<Rightarrow> ('r, 'e, 'p) REPLServer \<Rightarrow> ('r, 'e, 'p) REPLServer"
where
  "resolve promiseRef v s = s\<lparr>promises := settle (promise_of promiseRef) (Resolved v) (promises s)\<rparr>"

definition reject ::
  "JSCResponsePromiseCallbacks \<Rightarrow> 'e \<Rightarrow> ('r, 'e, 'p) REPLServer \<Rightarrow> ('r, 'e, 'p) REPLServer"
where
  "reject promiseRef reason s = s\<lparr>promises := settle (promise_of promiseRef) (Rejected reason) (promises s)\<rparr>"

text \<open>
  \<open>request\<close>: increment the counter, create the promise, whose executor stores the
  callbacks under the new id, and send the frame. The result is the handle of the promise
  and the new state. (The promise \<open>request\<close> hands out is the \<open>.catch\<close> of this one: it
  resolves with the same value and rejects with the reason copied onto a new \<open>Error\<close>.)
\<close>

definition request ::
  "string \<Rightarrow> 'p \<Rightarrow> ('r, 'e, 'p) REPLServer \<Rightarrow> nat \<times> ('r, 'e, 'p) REPLServer"
where
  "request method params s =
     (let s1 = s\<lparr>reqID := increment (reqID s)\<rparr>;
          req = \<lparr>req_id = reqID s1, req_method = method, req_params = params\<rparr>;
          h = length (promises s1);
          s2 = s1\<lparr>promises := promises s1 @ [Pending],
                   pendingReqs := (pendingReqs s1)(reqID s1 \<mapsto> Callbacks h)\<rparr>
      in (h, s2\<lparr>sent := sent s2 @ [req]\<rparr>))"

text \<open>
  The body of the \<open>try\<close> block of \<open>onmessage\<close>: the value it throws, if any, and the state
  it leaves. \<open>MapDelete\<close> runs as soon as an entry is found, before the frame is inspected.
\<close>

definition onmessage_try ::
  "('r, 'e) inbound \<Rightarrow> ('r, 'e, 'p) REPLServer \<Rightarrow> thrown_in_onmessage option \<times> ('r, 'e, 'p) REPLServer"
where
  "onmessage_try data s =
     (case data of
        Unparsable \<Rightarrow> (Some JSONParse_failed, s)
      | Data i err res \<Rightarrow>
          (case MapGet (pendingReqs s) i of
             Some promiseRef \<Rightarrow>
               (let s1 = s\<lparr>pendingReqs := MapDelete (pendingReqs s) i\<rparr> in
                case err of
                  Some e \<Rightarrow> (None, reject promiseRef e s1)
                | None \<Rightarrow>
                    (case res of
                       Some r \<Rightarrow> (None, resolve promiseRef r s1)
                     | None \<Rightarrow> (Some (Response_with_no_result_or_error i), s1)))
           | None \<Rightarrow> (Some (Message_for_unknown_request_ID i), s)))"

text \<open>\<open>onmessage\<close>: the \<open>catch\<close> clause logs what was thrown with \<open>console.error\<close>.\<close>

definition onmessage :: "('r, 'e) inbound \<Rightarrow> ('r, 'e, 'p) REPLServer \<Rightarrow> ('r, 'e, 'p) REPLServer" where
  "onmessage data s =
     (case onmessage_try data s of
        (None, s') \<Rightarrow> s'
      | (Some err, s') \<Rightarrow> s'\<lparr>console_error := console_error s' @ [err]\<rparr>)"

text \<open>
  The server's history: calls of \<open>request\<close> and inbound frames, in any interleaving. Both
  run on one thread, one at a time.
\<close>

datatype ('r, 'e, 'p) event = Call string 'p | Inbound "('r, 'e) inbound"

fun step :: "('r, 'e, 'p) event \<Rightarrow> ('r, 'e, 'p) REPLServer \<Rightarrow> ('r, 'e, 'p) REPLServer" where
  "step (Call method params) s = snd (request method params s)"
| "step (Inbound data) s = onmessage data s"

fun run :: "('r, 'e, 'p) event list \<Rightarrow> ('r, 'e, 'p) REPLServer \<Rightarrow> ('r, 'e, 'p) REPLServer" where
  "run [] s = s"
| "run (ev # evs) s = run evs (step ev s)"

section \<open>The inspection fallback chain: \<open>SafeInspect\<close>\<close>

text \<open>
  The options object, as far as this file reads or writes it. \<open>depth\<close> may be unset,
  \<open>null\<close>, a number or \<open>Infinity\<close>; \<open>sorted\<close> may be unset, a boolean or a comparison function.
\<close>

datatype depth_option = depth_unset | depth_null | depth_number nat | depth_Infinity

datatype sorted_option = sorted_unset | sorted_boolean bool | sorted_function

text \<open>
  \<open>SafeInspect\<close> is exported and writes to the options object it is given, so the model
  keeps how each of the two properties it writes behaves. A data property has a value and
  is writable or not (no property of a frozen object is writable). An accessor property
  has a getter, which returns a value or throws (\<open>None\<close>), and an assignment to it either
  returns normally or throws. The module is strict code, where an assignment to a property
  that is not writable, or to an accessor without a setter, throws a \<open>TypeError\<close>.
\<close>

datatype 'v property =
    Data_property 'v bool
  | Accessor_property "'v option" bool

text \<open>Reading \<open>opts.p\<close>: the value, or \<open>None\<close> when the getter throws.\<close>

definition read_property :: "'v property \<Rightarrow> 'v option" where
  "read_property p =
     (case p of
        Data_property v writable \<Rightarrow> Some v
      | Accessor_property getter settable \<Rightarrow> getter)"

text \<open>
  The assignment \<open>opts.p = x\<close>: the property afterwards, or \<open>None\<close> when the assignment
  throws. A setter that returns normally leaves what the getter returns as it was.
\<close>

definition assign_property :: "'v \<Rightarrow> 'v property \<Rightarrow> 'v property option" where
  "assign_property x p =
     (case p of
        Data_property v writable \<Rightarrow> if writable then Some (Data_property x True) else None
      | Accessor_property getter settable \<Rightarrow> if settable then Some p else None)"

record InspectOptions =
  depth :: "depth_option property"
  sorted :: "sorted_option property"
  colors :: "bool option"
  showProxy :: "bool option"

text \<open>The escape sequences of \<open>./colors\<close> that this file uses, taken as parameters.\<close>

record palette =
  red :: string
  yellow :: string
  dim :: string
  reset :: string

text \<open>
  What \<open>val + ''\<close> evaluates to when it does not throw. The source tests the result with
  \<open>typeof str === 'string'\<close>, so the model keeps the case of a result that is no string.
\<close>

datatype coerced = Str string | Not_a_string

text \<open>
  The functions \<open>SafeInspect\<close> calls, taken as parameters: \<open>utl.inspect\<close> of \<open>./utl\<close>, the
  runtime's \<open>Bun.inspect\<close>, \<open>console.warn\<close> and the string concatenation \<open>val + ''\<close>. Each
  one returns \<open>Inl x\<close> when it throws \<open>x\<close>.
\<close>

record ('v, 'x) inspectors =
  utl_inspect :: "'v \<Rightarrow> InspectOptions \<Rightarrow> 'x + string"
  bunInspect :: "'v \<Rightarrow> InspectOptions \<Rightarrow> 'x + string"
  console_warn :: "string \<Rightarrow> 'x + unit"
  concat_empty :: "'v \<Rightarrow> 'x + coerced"

text \<open>
  What \<open>SafeInspect\<close> changes while it runs: the options object it was given (the caller
  sees the writes) and the lines written with \<open>console.warn\<close>.
\<close>

record inspect_state =
  opts :: InspectOptions
  warned :: "string list"

text \<open>
  \<open>try { body } catch { handler }\<close>: the handler runs in the state the body left when the
  body throws, and the value thrown is dropped.
\<close>

definition try_catch ::
  "('s \<Rightarrow> ('x + 'a) \<times> 's) \<Rightarrow> ('s \<Rightarrow> ('x + 'a) \<times> 's) \<Rightarrow> 's \<Rightarrow> ('x + 'a) \<times> 's"
where
  "try_catch body handler s =
     (case body s of
        (Inr v, s') \<Rightarrow> (Inr v, s')
      | (Inl x, s') \<Rightarrow> handler s')"

definition all_failed_warning :: "palette \<Rightarrow> string" where
  "all_failed_warning P =
     yellow P @ dim P @ ''All value inspection methods failed, this should not happen!'' @ reset P"

text \<open>
  What is thrown inside \<open>SafeInspect\<close>: a value thrown by one of the functions it calls, or
  the exception of a read of or an assignment to a property of the options object.
\<close>

datatype 'x thrown = Thrown_by_callee 'x | Thrown_by_property_access

definition callee :: "'x + 'a \<Rightarrow> 'x thrown + 'a" where
  "callee r = (case r of Inl x \<Rightarrow> Inl (Thrown_by_callee x) | Inr v \<Rightarrow> Inr v)"

text \<open>
  The two statements of the inner \<open>catch\<close> clause, each giving the options object
  afterwards, or \<open>None\<close> when the statement throws:
  \<open>if (opts.depth === null) opts.depth = Infinity\<close> and
  \<open>if (typeof opts.sorted === 'function') opts.sorted = true\<close>.
\<close>

definition set_depth :: "InspectOptions \<Rightarrow> InspectOptions option" where
  "set_depth options =
     (case read_property (depth options) of
        None \<Rightarrow> None
      | Some v \<Rightarrow>
          if v = depth_null
          then map_option (\<lambda>p. options\<lparr>depth := p\<rparr>) (assign_property depth_Infinity (depth options))
          else Some options)"

definition set_sorted :: "InspectOptions \<Rightarrow> InspectOptions option" where
  "set_sorted options =
     (case read_property (sorted options) of
        None \<Rightarrow> None
      | Some v \<Rightarrow>
          if v = sorted_function
          then map_option (\<lambda>p. options\<lparr>sorted := p\<rparr>)
                 (assign_property (sorted_boolean True) (sorted options))
          else Some options)"

text \<open>Both statements in a row: the options \<open>Bun.inspect\<close> is called with, if it is reached.\<close>

definition fallback_options :: "InspectOptions \<Rightarrow> InspectOptions option" where
  "fallback_options options =
     (case set_depth options of
        None \<Rightarrow> None
      | Some o1 \<Rightarrow> set_sorted o1)"

definition SafeInspect ::
  "palette \<Rightarrow> ('v, 'x) inspectors \<Rightarrow> 'v \<Rightarrow> InspectOptions
     \<Rightarrow> ('x thrown + string) \<times> inspect_state"
where
  "SafeInspect P I val options =
     try_catch
       (try_catch
          (\<lambda>s. (callee (utl_inspect I val (opts s)), s))
          (\<lambda>s. case set_depth (opts s) of
                  None \<Rightarrow> (Inl Thrown_by_property_access, s)
                | Some o1 \<Rightarrow>
                    (let s1 = s\<lparr>opts := o1\<rparr> in
                     case set_sorted (opts s1) of
                       None \<Rightarrow> (Inl Thrown_by_property_access, s1)
                     | Some o2 \<Rightarrow>
                         (let s2 = s1\<lparr>opts := o2\<rparr>
                          in (callee (bunInspect I val (opts s2)), s2)))))
       (try_catch
          (\<lambda>s. case console_warn I (all_failed_warning P) of
                  Inl x \<Rightarrow> (Inl (Thrown_by_callee x), s)
                | Inr u \<Rightarrow>
                    (let s1 = s\<lparr>warned := warned s @ [all_failed_warning P]\<rparr> in
                     case concat_empty I val of
                       Inl x \<Rightarrow> (Inl (Thrown_by_callee x), s1)
                     | Inr (Str str) \<Rightarrow> (Inr str, s1)
                     | Inr Not_a_string \<Rightarrow> (Inr [], s1)))
          (\<lambda>s. (Inr [], s)))
       \<lparr>opts = options, warned = []\<rparr>"

section \<open>Evaluation: \<open>REPLServer.eval\<close>\<close>

datatype RemoteObjectType =
    type_string | type_number | type_bigint | type_boolean | type_symbol | type_undefined
  | type_object | type_function

datatype RemoteObjectSubtype =
    subtype_array | subtype_map | subtype_set | subtype_weakmap | subtype_weakset
  | subtype_error | subtype_null | subtype_date | subtype_regexp | subtype_class
  | subtype_proxy | subtype_weakref | subtype_iterator

record PropertyPreview =
  property_name :: string
  property_value :: "string option"

record ObjectPreview =
  properties :: "PropertyPreview list option"

text \<open>
  \<open>JSC.Runtime.RemoteObject\<close>, with the properties \<open>eval\<close> reads. An optional property is an
  \<open>option\<close>. \<open>string_value\<close> is the property \<open>value\<close> of an object of type \<open>string\<close>, which
  the protocol's type gives as a string; \<open>eval\<close> reads the \<open>value\<close> of no other type.
\<close>

record RemoteObject =
  type :: RemoteObjectType
  subtype :: "RemoteObjectSubtype option"
  objectId :: "string option"
  className :: "string option"
  description :: "string option"
  preview :: "ObjectPreview option"
  string_value :: string

text \<open>
  \<open>EvalRemoteObject\<close>: the remote object with the two properties \<open>eval\<close> adds. Both are
  only ever tested for truth, so an absent property is \<open>False\<close>.
\<close>

record EvalRemoteObject = RemoteObject +
  wasThrown :: bool
  wasRejectedPromise :: bool

text \<open>
  The response to \<open>Runtime.evaluate\<close>, \<open>Runtime.awaitPromise\<close> and
  \<open>Runtime.callFunctionOn\<close>: \<open>{ result, wasThrown }\<close>. The field \<open>thrown\<close> is the response's
  \<open>wasThrown\<close> (the name \<open>eval\<close> binds it to).
\<close>

record EvaluateResponse =
  result :: RemoteObject
  thrown :: bool

text \<open>\<open>remoteObj = result; remoteObj.wasThrown = thrown\<close>.\<close>

definition with_wasThrown :: "RemoteObject \<Rightarrow> bool \<Rightarrow> EvalRemoteObject" where
  "with_wasThrown r w =
     \<lparr>type = type r, subtype = subtype r, objectId = objectId r, className = className r,
      description = description r, preview = preview r, string_value = string_value r,
      wasThrown = w, wasRejectedPromise = False\<rparr>"

text \<open>
  The requests \<open>eval\<close> sends through \<open>request\<close>. Of the function text that
  \<open>Runtime.callFunctionOn\<close> carries, the model keeps the two values \<open>eval\<close> computes and
  splices in (\<open>wasThrown\<close> and \<open>remoteObj.subtype === 'error'\<close>), and the argument.
\<close>

datatype rpc =
    Runtime_evaluate (expression: string) (generatePreview: bool)
  | Runtime_awaitPromise (promiseObjectId: string) (generatePreview: bool)
  | Runtime_callFunctionOn (spliced_wasThrown: bool) (spliced_subtype_is_error: bool)
      (argument: EvalRemoteObject)

fun is_callFunctionOn :: "rpc \<Rightarrow> bool" where
  "is_callFunctionOn (Runtime_callFunctionOn w e a) = True"
| "is_callFunctionOn other = False"

datatype EvalError_message =
    Received_non_null_object_without_objectId
  | Received_Promise_object_without_preview
  | Received_BigInt_value_without_description
  | Failed_to_inspect_object
  | Received_non_string_inspect_result

datatype ('e, 'x) exn =
    Request_rejected 'e
  | EvalError EvalError_message
  | SyntaxError
  | Thrown_by_inspector "'x thrown"

text \<open>
  How a call of \<open>eval\<close> ends: it returns a text, it throws, or it waits for ever for a
  promise that stays pending.
\<close>

datatype ('e, 'x) outcome = Returns string | Throws "('e, 'x) exn" | Never_returns

text \<open>The second argument of \<open>eval\<close>'s caller, \<open>extraOut\<close>.\<close>

record extraInfo =
  errored :: bool
  noPrintError :: bool

text \<open>
  The values \<open>eval\<close> itself stores in properties of the global object: a \<open>BigInt\<close>, and the
  helper object of the render call.
\<close>

datatype global_value = BigInt_value int | REPL_internals_value

text \<open>
  The state \<open>eval\<close> acts on: the properties of \<open>GLOBAL\<close> it writes, the requests sent, the
  lines written with \<open>console.warn\<close>, the caller's \<open>extraOut\<close> object if one was passed, and
  the options object \<open>GLOBAL.repl?.writer?.options\<close> if there is one.
\<close>

record eval_state =
  GLOBAL :: "string \<rightharpoonup> global_value"
  requests :: "rpc list"
  warnings :: "string list"
  extraOut :: "extraInfo option"
  writer_options :: "InspectOptions option"

text \<open>
  What \<open>eval\<close> takes from its surroundings: the colours, \<open>Bun.enableANSIColors\<close>, the
  built-in \<open>BigInt\<close> applied to a string (\<open>None\<close> when it throws a \<open>SyntaxError\<close>), the
  collaborators of \<open>SafeInspect\<close>, and for every request the state its promise ends in
  (the correlation layer settles it with the reply's \<open>result\<close> or \<open>error\<close>).
\<close>

record ('e, 'x) host =
  palette_of :: palette
  enableANSIColors :: bool
  BigInt :: "string \<Rightarrow> int option"
  inspectors_of :: "(int, 'x) inspectors"
  respond :: "rpc \<Rightarrow> (EvaluateResponse, 'e) promise_state"

text \<open>\<open>await\<close> of the promise of a request.\<close>

definition await :: "('r, 'e) promise_state \<Rightarrow> ('e, 'x) outcome + 'r" where
  "await p = (case p of
                Pending \<Rightarrow> Inl Never_returns
              | Rejected e \<Rightarrow> Inl (Throws (Request_rejected e))
              | Resolved r \<Rightarrow> Inr r)"

definition send_request :: "rpc \<Rightarrow> eval_state \<Rightarrow> eval_state" where
  "send_request call st = st\<lparr>requests := requests st @ [call]\<rparr>"

definition Uncaught :: "palette \<Rightarrow> string" where
  "Uncaught P = red P @ ''Uncaught '' @ reset P"

definition REPL_INTERNALS :: string where
  "REPL_INTERNALS = ''@@bunReplInternals''"

definition tla_warning :: "palette \<Rightarrow> string" where
  "tla_warning P =
     yellow P @ dim P @
     ''[!] REPL top-level await is still very experimental and prone to failing on complex code snippets.'' @
     [CHR 0x0A] @
     ''    You are seeing this because top-level await usage was detected with undefined as the result, if that was expected, you can ignore this.'' @
     reset P"

text \<open>
  \<open>result.preview.properties?.find(p => p.name === 'status')?.value === 'rejected'\<close>
\<close>

definition status_rejected :: "ObjectPreview \<Rightarrow> bool" where
  "status_rejected pv =
     (case properties pv of
        None \<Rightarrow> False
      | Some ps \<Rightarrow>
          (case find (\<lambda>p. property_name p = ''status'') ps of
             None \<Rightarrow> False
           | Some p \<Rightarrow> property_value p = Some ''rejected''))"

text \<open>
  The block labelled \<open>ObjectTypeHandler\<close>. It yields the working value \<open>remoteObj\<close>, or the
  way \<open>eval\<close> ends inside the block. A string is falsy when it is absent or empty.
\<close>

definition ObjectTypeHandler ::
  "('e, 'x) host \<Rightarrow> bool \<Rightarrow> RemoteObject \<Rightarrow> EvalRemoteObject \<Rightarrow> eval_state
     \<Rightarrow> (('e, 'x) outcome + EvalRemoteObject) \<times> eval_state"
where
  "ObjectTypeHandler H topLevelAwaited res remoteObj st =
     (if type res \<noteq> type_object then (Inr remoteObj, st)
      else if subtype res = Some subtype_null then (Inr remoteObj, st)
      else case objectId res of
        None \<Rightarrow> (Inl (Throws (EvalError Received_non_null_object_without_objectId)), st)
      | Some oid \<Rightarrow>
          if oid = [] then (Inl (Throws (EvalError Received_non_null_object_without_objectId)), st)
          else if className res = Some ''Promise'' then
            (case preview res of
               None \<Rightarrow> (Inl (Throws (EvalError Received_Promise_object_without_preview)), st)
             | Some pv \<Rightarrow>
                 (case (if topLevelAwaited then
                          (let call = Runtime_awaitPromise oid False;
                               st1 = send_request call st
                           in case await (respond H call) of
                                Inl ending \<Rightarrow> (Inl ending, st1)
                              | Inr awaited \<Rightarrow>
                                  (let remoteObj' = with_wasThrown (result awaited) (thrown awaited)
                                   in (Inr remoteObj',
                                       if type remoteObj' = type_undefined
                                       then st1\<lparr>warnings := warnings st1 @ [tla_warning (palette_of H)]\<rparr>
                                       else st1)))
                        else (Inr remoteObj, st)) of
                    (Inl ending, st') \<Rightarrow> (Inl ending, st')
                  | (Inr remoteObj', st') \<Rightarrow>
                      (Inr (if status_rejected pv then remoteObj'\<lparr>wasRejectedPromise := True\<rparr>
                            else remoteObj'), st')))
          else (Inr remoteObj, st))"

text \<open>
  The object literal \<open>{ colors: Bun.enableANSIColors, showProxy: true }\<close>: a new object, on
  which \<open>depth\<close> and \<open>sorted\<close> are unset and any assignment succeeds.
\<close>

definition default_options :: "('e, 'x) host \<Rightarrow> InspectOptions" where
  "default_options H =
     \<lparr>depth = Data_property depth_unset True, sorted = Data_property sorted_unset True,
      colors = Some (enableANSIColors H), showProxy = Some True\<rparr>"

text \<open>
  The branch \<open>if (remoteObj.type === 'bigint')\<close>. \<open>description.slice(0, -1)\<close> of a string
  that is not empty is the string without its last character.
\<close>

definition eval_bigint ::
  "('e, 'x) host \<Rightarrow> EvalRemoteObject \<Rightarrow> eval_state \<Rightarrow> ('e, 'x) outcome \<times> eval_state"
where
  "eval_bigint H remoteObj st =
     (case description remoteObj of
        None \<Rightarrow> (Throws (EvalError Received_BigInt_value_without_description), st)
      | Some d \<Rightarrow>
          if d = [] then (Throws (EvalError Received_BigInt_value_without_description), st)
          else case BigInt H (butlast d) of
            None \<Rightarrow> (Throws SyntaxError, st)
          | Some v \<Rightarrow>
              (let st1 = st\<lparr>GLOBAL := (GLOBAL st)
                            ((if wasThrown remoteObj then ''_error'' else ''_'') \<mapsto> BigInt_value v)\<rparr>;
                   (inspected, ist) =
                     SafeInspect (palette_of H) (inspectors_of H) v
                       (case writer_options st1 of Some w \<Rightarrow> w | None \<Rightarrow> default_options H);
                   st2 = st1\<lparr>warnings := warnings st1 @ warned ist,
                             writer_options := map_option (\<lambda>w. opts ist) (writer_options st1)\<rparr>
               in case inspected of
                    Inl x \<Rightarrow> (Throws (Thrown_by_inspector x), st2)
                  | Inr text \<Rightarrow>
                      (Returns ((if wasThrown remoteObj then Uncaught (palette_of H) else []) @ text),
                       st2)))"

text \<open>
  The rest of \<open>eval\<close>: the render call and the last lines, which write \<open>extraOut\<close> and
  build the text.
\<close>

definition eval_render ::
  "('e, 'x) host \<Rightarrow> EvalRemoteObject \<Rightarrow> eval_state \<Rightarrow> ('e, 'x) outcome \<times> eval_state"
where
  "eval_render H remoteObj st =
     (let st1 = st\<lparr>GLOBAL := (GLOBAL st)(REPL_INTERNALS \<mapsto> REPL_internals_value)\<rparr>;
          call = Runtime_callFunctionOn (wasThrown remoteObj)
                   (subtype remoteObj = Some subtype_error) remoteObj;
          st2 = send_request call st1
      in case await (respond H call) of
           Inl ending \<Rightarrow> (ending, st2)
         | Inr inspected \<Rightarrow>
             (let st3 = st2\<lparr>GLOBAL := (GLOBAL st2)(REPL_INTERNALS := None)\<rparr> in
              if thrown inspected then (Throws (EvalError Failed_to_inspect_object), st3)
              else if type (result inspected) \<noteq> type_string
              then (Throws (EvalError Received_non_string_inspect_result), st3)
              else
                (let st4 = st3\<lparr>extraOut :=
                        map_option
                          (\<lambda>out. let out1 = (if wasThrown remoteObj then out\<lparr>errored := True\<rparr> else out)
                                  in if wasRejectedPromise remoteObj then out1\<lparr>noPrintError := True\<rparr>
                                     else out1)
                          (extraOut st3)\<rparr>
                 in if wasThrown remoteObj \<and> subtype remoteObj \<noteq> Some subtype_error
                    then (Returns (Uncaught (palette_of H) @ string_value (result inspected)), st4)
                    else (Returns (string_value (result inspected)), st4))))"

text \<open>
  \<open>rawEval\<close> and the first lines of \<open>eval\<close>, up to the working value: the value the rest
  of \<open>eval\<close> works on, or the way \<open>eval\<close> ends before there is one.
\<close>

definition working_value ::
  "('e, 'x) host \<Rightarrow> string \<Rightarrow> bool \<Rightarrow> eval_state
     \<Rightarrow> (('e, 'x) outcome + EvalRemoteObject) \<times> eval_state"
where
  "working_value H code topLevelAwaited st =
     (let call = Runtime_evaluate code True;
          st1 = send_request call st
      in case await (respond H call) of
           Inl ending \<Rightarrow> (Inl ending, st1)
         | Inr response \<Rightarrow>
             ObjectTypeHandler H topLevelAwaited (result response)
               (with_wasThrown (result response) (thrown response)) st1)"

definition eval ::
  "('e, 'x) host \<Rightarrow> string \<Rightarrow> bool \<Rightarrow> eval_state \<Rightarrow> ('e, 'x) outcome \<times> eval_state"
where
  "eval H code topLevelAwaited st =
     (case working_value H code topLevelAwaited st of
        (Inl ending, st') \<Rightarrow> (ending, st')
      | (Inr remoteObj, st') \<Rightarrow>
          if type remoteObj = type_bigint then eval_bigint H remoteObj st'
          else eval_render H remoteObj st')"

text \<open>The values for which \<open>eval\<close> enters the branch \<open>result.className === 'Promise'\<close>.\<close>

definition is_Promise :: "RemoteObject \<Rightarrow> bool" where
  "is_Promise res \<longleftrightarrow>
     type res = type_object \<and> subtype res \<noteq> Some subtype_null \<and> className res = Some ''Promise''"

section \<open>The driver: printing the result of an evaluation\<close>

text \<open>\<open>console.log\<close> writes to standard output and \<open>console.error\<close> to standard error.\<close>

datatype printed = Stdout string | Stderr string

text \<open>The lines after \<open>repl.eval\<close> in the single-shot branch of \<open>start\<close>.\<close>

definition print_singleshot :: "bool \<Rightarrow> extraInfo \<Rightarrow> string \<Rightarrow> printed list" where
  "print_singleshot printSingleshot extraInfo evaled =
     (if \<not> noPrintError extraInfo then
        (if errored extraInfo then [Stderr evaled]
         else if printSingleshot then [Stdout evaled] else [])
      else if \<not> errored extraInfo \<and> printSingleshot then [Stdout evaled] else [])"

text \<open>The lines after \<open>repl.eval\<close> in the \<open>line\<close> handler of \<open>start\<close>.\<close>

definition print_line :: "extraInfo \<Rightarrow> string \<Rightarrow> printed list" where
  "print_line extraInfo evaled =
     (if \<not> noPrintError extraInfo then
        (if errored extraInfo then [Stderr evaled] else [Stdout evaled])
      else if \<not> errored extraInfo then [Stdout evaled] else [])"

section \<open>The top-level await transform: \<open>tryProcessTopLevelAwait\<close>\<close>

text \<open>
  A JavaScript string is modelled as the list of its code points. The regular expression
  has the flag \<open>u\<close>, so it reads the text code point by code point; \<open>split\<close>, \<open>trim\<close> and
  \<open>join\<close> only look at characters of the basic plane. \<open>codes\<close> embeds a literal.
\<close>

type_synonym jsstring = "nat list"

definition codes :: "string \<Rightarrow> jsstring" where
  "codes s = map of_char s"

text \<open>
  The white space and line terminators of ECMAScript: what \<open>String.prototype.trim\<close> removes
  and what \<open>\s\<close> matches.
\<close>

definition is_space :: "nat \<Rightarrow> bool" where
  "is_space c \<longleftrightarrow>
     c \<in> {0x9, 0xA, 0xB, 0xC, 0xD, 0x20, 0xA0, 0x1680, 0x2028, 0x2029, 0x202F, 0x205F, 0x3000, 0xFEFF}
     \<or> (0x2000 \<le> c \<and> c \<le> 0x200A)"

definition StringTrim :: "jsstring \<Rightarrow> jsstring" where
  "StringTrim s = rev (dropWhile is_space (rev (dropWhile is_space s)))"

text \<open>
  \<open>StringPrototypeSplit(src, '\n')\<close> and \<open>ArrayPrototypeJoin(lines, '\n')\<close>. A split has at
  least one line.
\<close>

fun StringPrototypeSplit :: "jsstring \<Rightarrow> jsstring list" where
  "StringPrototypeSplit [] = [[]]"
| "StringPrototypeSplit (c # cs) =
     (if c = 0xA then [] # StringPrototypeSplit cs
      else case StringPrototypeSplit cs of
             [] \<Rightarrow> [[c]]
           | l # ls \<Rightarrow> (c # l) # ls)"

fun ArrayPrototypeJoin :: "jsstring list \<Rightarrow> jsstring" where
  "ArrayPrototypeJoin [] = []"
| "ArrayPrototypeJoin [l] = l"
| "ArrayPrototypeJoin (l # ls) = l @ 0xA # ArrayPrototypeJoin ls"

text \<open>
  \<open>JSVarDeclRegex\<close>: one of the keywords \<open>var\<close>, \<open>let\<close>, \<open>const\<close>; then \<open>\s+\<close>; then the
  identifier, which starts with \<open>$\<close>, \<open>_\<close>, a character with the property \<open>ID_Start\<close> or an
  escape \<open>\uXXXX\<close> of four hexadecimal digits, and goes on with \<open>$\<close>, U+200C, U+200D,
  characters with the property \<open>ID_Continue\<close> and such escapes. The two Unicode properties
  are parameters. The matchers give the number of code points they consume at the start of
  the text. An identifier part is tried greedily; \<open>\s+\<close> is tried from the longest run of
  white space down to one character, as backtracking does. \<open>JSVarDeclRegex\<close> gives the two
  groups and the length of the whole match.
\<close>

record unicode_properties =
  ID_Start :: "nat \<Rightarrow> bool"
  ID_Continue :: "nat \<Rightarrow> bool"

definition is_hex :: "nat \<Rightarrow> bool" where
  "is_hex c \<longleftrightarrow> (48 \<le> c \<and> c \<le> 57) \<or> (97 \<le> c \<and> c \<le> 102) \<or> (65 \<le> c \<and> c \<le> 70)"

definition match_escape :: "jsstring \<Rightarrow> nat option" where
  "match_escape s =
     (case s of
        b # u # h1 # h2 # h3 # h4 # rest \<Rightarrow>
          if b = 92 \<and> u = 117 \<and> is_hex h1 \<and> is_hex h2 \<and> is_hex h3 \<and> is_hex h4
          then Some 6 else None
      | _ \<Rightarrow> None)"

definition match_start :: "unicode_properties \<Rightarrow> jsstring \<Rightarrow> nat option" where
  "match_start U s =
     (case s of
        [] \<Rightarrow> None
      | c # cs \<Rightarrow> if c = 36 \<or> c = 95 \<or> ID_Start U c then Some 1 else match_escape s)"

definition match_part :: "unicode_properties \<Rightarrow> jsstring \<Rightarrow> nat option" where
  "match_part U s =
     (case s of
        [] \<Rightarrow> None
      | c # cs \<Rightarrow> if c = 36 \<or> c = 0x200C \<or> c = 0x200D \<or> ID_Continue U c then Some 1
                 else match_escape s)"

function match_parts :: "unicode_properties \<Rightarrow> jsstring \<Rightarrow> nat" where
  "match_parts U [] = 0"
| "match_parts U (c # cs) =
     (case match_part U (c # cs) of
        None \<Rightarrow> 0
      | Some k \<Rightarrow> k + match_parts U (drop k (c # cs)))"
  by pat_completeness auto
termination
  by (relation "measure (\<lambda>(U, s). length s)")
     (auto simp: match_part_def match_escape_def split: list.splits if_splits)

definition match_varname :: "unicode_properties \<Rightarrow> jsstring \<Rightarrow> nat option" where
  "match_varname U s =
     (case match_start U s of
        None \<Rightarrow> None
      | Some k \<Rightarrow> Some (k + match_parts U (drop k s)))"

fun match_spaces_varname :: "unicode_properties \<Rightarrow> jsstring \<Rightarrow> nat \<Rightarrow> (nat \<times> nat) option" where
  "match_spaces_varname U s 0 = None"
| "match_spaces_varname U s (Suc w) =
     (case match_varname U (drop (Suc w) s) of
        Some n \<Rightarrow> Some (Suc w, n)
      | None \<Rightarrow> match_spaces_varname U s w)"

definition match_after :: "unicode_properties \<Rightarrow> jsstring \<Rightarrow> jsstring \<Rightarrow> (jsstring \<times> jsstring \<times> nat) option" where
  "match_after U keyword s =
     (if take (length keyword) s = keyword then
        (let r = drop (length keyword) s in
         case match_spaces_varname U r (length (takeWhile is_space r)) of
           None \<Rightarrow> None
         | Some (w, n) \<Rightarrow> Some (keyword, take n (drop w r), length keyword + w + n))
      else None)"

definition JSVarDeclRegex :: "unicode_properties \<Rightarrow> jsstring \<Rightarrow> (jsstring \<times> jsstring \<times> nat) option" where
  "JSVarDeclRegex U s =
     (case match_after U (codes ''var'') s of
        Some m \<Rightarrow> Some m
      | None \<Rightarrow>
          (case match_after U (codes ''let'') s of
             Some m \<Rightarrow> Some m
           | None \<Rightarrow> match_after U (codes ''const'') s))"

text \<open>
  \<open>StringPrototypeReplaceAll(text, JSVarDeclRegex, callback)\<close>: the matches from left to
  right, none overlapping another; each is replaced by what the callback returns. The
  callback of \<open>tryProcessTopLevelAwait\<close> also appends to the variable \<open>hoisted\<close>, so the
  model threads a state through the calls of the callback.
\<close>

function StringPrototypeReplaceAll ::
  "unicode_properties \<Rightarrow> (jsstring \<Rightarrow> jsstring \<Rightarrow> 'a \<Rightarrow> jsstring \<times> 'a) \<Rightarrow> jsstring \<Rightarrow> 'a \<Rightarrow> jsstring \<times> 'a"
where
  "StringPrototypeReplaceAll U f [] acc = ([], acc)"
| "StringPrototypeReplaceAll U f (c # cs) acc =
     (case JSVarDeclRegex U (c # cs) of
        Some (keyword, varname, k) \<Rightarrow>
          (let (replacement, acc1) = f keyword varname acc;
               (rest, acc2) = StringPrototypeReplaceAll U f (drop k (c # cs)) acc1
           in (replacement @ rest, acc2))
      | None \<Rightarrow>
          (let (rest, acc1) = StringPrototypeReplaceAll U f cs acc
           in (c # rest, acc1)))"
  by pat_completeness auto
termination
  by (relation "measure (\<lambda>(U, f, s, acc). length s)")
     (auto simp: JSVarDeclRegex_def match_after_def Let_def codes_def split: option.splits if_splits)

definition hoist :: "jsstring \<Rightarrow> jsstring \<Rightarrow> jsstring \<Rightarrow> jsstring \<times> jsstring" where
  "hoist keyword varname hoisted =
     (varname,
      hoisted @ (if keyword = codes ''const'' then codes ''let'' else keyword) @ codes '' '' @ varname @ codes '';'')"

text \<open>
  \<open>tryProcessTopLevelAwait\<close>. When the only line is blank, \<open>pop\<close> leaves no line: the
  assignment to \<open>lines[lines.length - 1]\<close> then writes the property \<open>-1\<close>, which is no element,
  and \<open>lines[0]\<close> is \<open>undefined\<close>, which the concatenation turns into the text \<open>undefined\<close>.
\<close>

definition tryProcessTopLevelAwait :: "unicode_properties \<Rightarrow> jsstring \<Rightarrow> jsstring" where
  "tryProcessTopLevelAwait U src =
     (let lines0 = StringPrototypeSplit src;
          lines1 = (if StringTrim (last lines0) = [] then butlast lines0 else lines0);
          lines2 = (if lines1 = [] then []
                    else lines1[length lines1 - 1 := codes ''return '' @ last lines1 @ codes '';})();'']);
          lines3 = (if lines2 = [] then [codes ''(async()=>{'' @ codes ''undefined'']
                    else lines2[0 := codes ''(async()=>{'' @ lines2 ! 0]);
          (transformed, hoisted) = StringPrototypeReplaceAll U hoist (ArrayPrototypeJoin lines3) []
      in hoisted @ transformed)"

subsection \<open>The transform as the specification words it\<close>

text \<open>
  The text seen by the replacement, cut into its pieces: a declaration the regular
  expression matched (keyword, white space, identifier) or a single other character.
\<close>

datatype segment = Plain nat | Declaration jsstring jsstring jsstring

function declarations :: "unicode_properties \<Rightarrow> jsstring \<Rightarrow> segment list" where
  "declarations U [] = []"
| "declarations U (c # cs) =
     (case JSVarDeclRegex U (c # cs) of
        Some (keyword, varname, k) \<Rightarrow>
          Declaration keyword
            (take (k - length keyword - length varname) (drop (length keyword) (c # cs))) varname
          # declarations U (drop k (c # cs))
      | None \<Rightarrow> Plain c # declarations U cs)"
  by pat_completeness auto
termination
  by (relation "measure (\<lambda>(U, s). length s)")
     (auto simp: JSVarDeclRegex_def match_after_def Let_def codes_def split: option.splits if_splits)

fun original :: "segment \<Rightarrow> jsstring" where
  "original (Plain c) = [c]"
| "original (Declaration keyword spaces varname) = keyword @ spaces @ varname"

fun replacement :: "segment \<Rightarrow> jsstring" where
  "replacement (Plain c) = [c]"
| "replacement (Declaration keyword spaces varname) = varname"

fun redeclaration :: "segment \<Rightarrow> jsstring" where
  "redeclaration (Plain c) = []"
| "redeclaration (Declaration keyword spaces varname) =
     (if keyword = codes ''const'' then codes ''let'' else keyword) @ codes '' '' @ varname @ codes '';''"

fun well_formed :: "segment \<Rightarrow> bool" where
  "well_formed (Plain c) = True"
| "well_formed (Declaration keyword spaces varname) =
     (keyword \<in> {codes ''var'', codes ''let'', codes ''const''} \<and>
      spaces \<noteq> [] \<and> (\<forall>c \<in> set spaces. is_space c) \<and> varname \<noteq> [])"

text \<open>
  The lines of the fragment without a trailing blank line, and the body: the opener before
  the first line, \<open>return\<close> before the last line, and after it the semicolon and the
  invocation of the closure.
\<close>

definition lines_without_trailing_blank :: "jsstring \<Rightarrow> jsstring list" where
  "lines_without_trailing_blank src =
     (let ls = StringPrototypeSplit src
      in if StringTrim (last ls) = [] then butlast ls else ls)"

definition wrapped_body :: "jsstring \<Rightarrow> jsstring" where
  "wrapped_body src =
     (let ls = lines_without_trailing_blank src
      in codes ''(async()=>{'' @
         ArrayPrototypeJoin (butlast ls @ [codes ''return '' @ last ls]) @ codes '';})();'')"

text \<open>
  The body in the words of the specification, which puts the last line in parentheses:
  \<open>return (<original-last-line>);\<close>.
\<close>

definition wrapped_body_as_claimed :: "jsstring \<Rightarrow> jsstring" where
  "wrapped_body_as_claimed src =
     (let ls = lines_without_trailing_blank src
      in codes ''(async()=>{'' @
         ArrayPrototypeJoin (butlast ls @ [codes ''return ('' @ last ls @ codes '');'']) @ codes ''})();'')"

section \<open>A host for the examples\<close>

text \<open>
  Concrete surroundings on which the definitions above can be run: the colours as ANSI
  escape sequences, a \<open>BigInt\<close> that reads signed decimal numerals (the built-in reads
  prefixed and padded forms as well), inspectors of which the first throws, and a remote
  end that answers a few fragments.
\<close>

definition example_palette :: palette where
  "example_palette =
     \<lparr>red = CHR 0x1B # ''[31m'', yellow = CHR 0x1B # ''[33m'', dim = CHR 0x1B # ''[2m'',
      reset = CHR 0x1B # ''[0m''\<rparr>"

fun decimal_value :: "nat \<Rightarrow> string \<Rightarrow> nat option" where
  "decimal_value acc [] = Some acc"
| "decimal_value acc (c # cs) =
     (if 48 \<le> (of_char c :: nat) \<and> (of_char c :: nat) \<le> 57
      then decimal_value (10 * acc + (of_char c - 48)) cs else None)"

definition example_BigInt :: "string \<Rightarrow> int option" where
  "example_BigInt s =
     (case s of
        [] \<Rightarrow> Some 0
      | c # cs \<Rightarrow>
          if c = CHR ''-'' then (if cs = [] then None
                                 else map_option (\<lambda>n. - int n) (decimal_value 0 cs))
          else map_option int (decimal_value 0 s))"

definition example_inspectors :: "(int, unit) inspectors" where
  "example_inspectors =
     \<lparr>utl_inspect = (\<lambda>v options. Inl ()),
      bunInspect = (\<lambda>v options. if v = 123 then Inr ''123n'' else if v = 5 then Inr ''5n'' else Inl ()),
      console_warn = (\<lambda>line. Inr ()),
      concat_empty = (\<lambda>v. Inl ())\<rparr>"

definition example_object :: "RemoteObjectType \<Rightarrow> string \<Rightarrow> RemoteObject" where
  "example_object t d =
     \<lparr>type = t, subtype = None, objectId = None, className = None, description = Some d,
      preview = None, string_value = []\<rparr>"

definition example_respond :: "rpc \<Rightarrow> (EvaluateResponse, string) promise_state" where
  "example_respond call =
     (case call of
        Runtime_evaluate code gp \<Rightarrow>
          if code = ''123n'' then Resolved \<lparr>result = example_object type_bigint ''123n'', thrown = False\<rparr>
          else if code = ''throw 5n'' then Resolved \<lparr>result = example_object type_bigint ''5n'', thrown = True\<rparr>
          else if code = ''throw 5'' then Resolved \<lparr>result = example_object type_number ''5'', thrown = True\<rparr>
          else if code = ''throw new Error'' then
            Resolved \<lparr>result = (example_object type_object ''Error'')
                         \<lparr>subtype := Some subtype_error, objectId := Some ''1'',
                          className := Some ''Error''\<rparr>,
                      thrown = True\<rparr>
          else if code = ''(async()=>{return await Promise.reject(5);})();'' then
            Resolved \<lparr>result = (example_object type_object ''Promise'')
                         \<lparr>objectId := Some ''2'', className := Some ''Promise'',
                          preview := Some \<lparr>properties = Some
                            [\<lparr>property_name = ''status'', property_value = Some ''pending''\<rparr>]\<rparr>\<rparr>,
                      thrown = False\<rparr>
          else Pending
      | Runtime_awaitPromise oid gp \<Rightarrow>
          if oid = ''2'' then Resolved \<lparr>result = example_object type_number ''5'', thrown = True\<rparr>
          else Rejected ''Could not find object''
      | Runtime_callFunctionOn w e a \<Rightarrow>
          Resolved \<lparr>result = (example_object type_string [])
                       \<lparr>string_value := (case description a of Some d \<Rightarrow> d | None \<Rightarrow> [])\<rparr>,
                    thrown = False\<rparr>)"

definition example_host :: "(string, unit) host" where
  "example_host =
     \<lparr>palette_of = example_palette, enableANSIColors = True, BigInt = example_BigInt,
      inspectors_of = example_inspectors, respond = example_respond\<rparr>"

text \<open>A remote end that answers with a \<open>bigint\<close> whose description is no numeral.\<close>

definition malformed_bigint_host :: "(string, unit) host" where
  "malformed_bigint_host =
     example_host\<lparr>respond :=
       (\<lambda>call. Resolved \<lparr>result = example_object type_bigint ''abc'', thrown = False\<rparr>)\<rparr>"

definition example_state :: eval_state where
  "example_state =
     \<lparr>GLOBAL = Map.empty, requests = [], warnings = [],
      extraOut = Some \<lparr>errored = False, noPrintError = False\<rparr>, writer_options = None\<rparr>"

text \<open>The two Unicode properties on the ASCII characters.\<close>

definition ascii_properties :: unicode_properties where
  "ascii_properties =
     \<lparr>ID_Start = (\<lambda>c. (65 \<le> c \<and> c \<le> 90) \<or> (97 \<le> c \<and> c \<le> 122)),
      ID_Continue = (\<lambda>c. (65 \<le> c \<and> c \<le> 90) \<or> (97 \<le> c \<and> c \<le> 122) \<or> (48 \<le> c \<and> c \<le> 57) \<or> c = 95)\<rparr>"

section \<open>Properties of the correlation layer\<close>

text \<open>
  The invariant of the table: every entry names an allocated promise that is still
  pending, no two entries name the same promise, and every key has been allocated.
\<close>

definition table_ok :: "('r, 'e, 'p) REPLServer \<Rightarrow> bool" where
  "table_ok s \<longleftrightarrow>
     (\<forall>n h. pendingReqs s n = Some (Callbacks h) \<longrightarrow>
        h < length (promises s) \<and> promises s ! h = Pending \<and> 1 \<le> n \<and> n \<le> reqID s) \<and>
     (\<forall>n n' c. pendingReqs s n = Some c \<and> pendingReqs s n' = Some c \<longrightarrow> n = n')"

text \<open>
  The ids sent so far: while the counter is in the range where \<open>++\<close> is exact, they are
  \<open>1, 2, ...\<close> up to the counter.
\<close>

definition ids_ok :: "('r, 'e, 'p) REPLServer \<Rightarrow> bool" where
  "ids_ok s \<longleftrightarrow> (reqID s < 2 ^ 53 \<longrightarrow> map req_id (sent s) = [1..<Suc (reqID s)])"

lemma table_ok_init: "table_ok init_server"
  by (simp add: table_ok_def init_server_def)

lemma increment_ge: "n \<le> increment n" "1 \<le> increment n"
  by (simp_all add: increment_def)

lemma request_fields:
  "fst (request method params s) = length (promises s)"
  "reqID (snd (request method params s)) = increment (reqID s)"
  "promises (snd (request method params s)) = promises s @ [Pending]"
  "pendingReqs (snd (request method params s)) =
     (pendingReqs s)(increment (reqID s) \<mapsto> Callbacks (length (promises s)))"
  "sent (snd (request method params s)) =
     sent s @ [\<lparr>req_id = increment (reqID s), req_method = method, req_params = params\<rparr>]"
  "console_error (snd (request method params s)) = console_error s"
  by (simp_all add: request_def Let_def)

lemma table_ok_request:
  assumes "table_ok s"
  shows "table_ok (snd (request method params s))"
proof -
  let ?s' = "snd (request method params s)"
  have old: "\<And>n h. pendingReqs s n = Some (Callbacks h) \<Longrightarrow>
      h < length (promises s) \<and> promises s ! h = Pending \<and> 1 \<le> n \<and> n \<le> reqID s"
    using assms by (simp add: table_ok_def)
  have inj: "\<And>n n' c. pendingReqs s n = Some c \<Longrightarrow> pendingReqs s n' = Some c \<Longrightarrow> n = n'"
    using assms unfolding table_ok_def by blast
  have a: "h < length (promises ?s') \<and> promises ?s' ! h = Pending \<and> 1 \<le> n \<and> n \<le> reqID ?s'"
    if "pendingReqs ?s' n = Some (Callbacks h)" for n h
  proof (cases "n = increment (reqID s)")
    case True
    with that have "h = length (promises s)" by (simp add: request_fields)
    with True show ?thesis using increment_ge by (simp add: request_fields)
  next
    case False
    with that have "pendingReqs s n = Some (Callbacks h)" by (simp add: request_fields)
    from old[OF this] show ?thesis
      using increment_ge(1)[of "reqID s"] by (simp add: request_fields nth_append)
  qed
  have b: "n = n'" if "pendingReqs ?s' n = Some c" "pendingReqs ?s' n' = Some c" for n n' c
  proof -
    obtain h where c: "c = Callbacks h" by (cases c)
    show ?thesis
    proof (cases "n = increment (reqID s)")
      case True
      with that(1) c have h: "h = length (promises s)" by (simp add: request_fields)
      show ?thesis
      proof (rule ccontr)
        assume "n \<noteq> n'"
        with True that(2) c have "pendingReqs s n' = Some (Callbacks h)"
          by (simp add: request_fields)
        from old[OF this] h show False by simp
      qed
    next
      case False
      with that(1) c have 1: "pendingReqs s n = Some (Callbacks h)" by (simp add: request_fields)
      show ?thesis
      proof (cases "n' = increment (reqID s)")
        case True
        with that(2) c have "h = length (promises s)" by (simp add: request_fields)
        with old[OF 1] show ?thesis by simp
      next
        case False
        with that(2) c have "pendingReqs s n' = Some (Callbacks h)" by (simp add: request_fields)
        with 1 inj show ?thesis by blast
      qed
    qed
  qed
  show ?thesis unfolding table_ok_def using a b by blast
qed

lemma onmessage_unparsable:
  "onmessage Unparsable s = s\<lparr>console_error := console_error s @ [JSONParse_failed]\<rparr>"
  by (simp add: onmessage_def onmessage_try_def)

lemma onmessage_unknown:
  "MapGet (pendingReqs s) i = None \<Longrightarrow>
   onmessage (Data i err res) s =
     s\<lparr>console_error := console_error s @ [Message_for_unknown_request_ID i]\<rparr>"
  by (simp add: onmessage_def onmessage_try_def)

lemma onmessage_error:
  "MapGet (pendingReqs s) i = Some c \<Longrightarrow>
   onmessage (Data i (Some e) res) s =
     s\<lparr>pendingReqs := MapDelete (pendingReqs s) i,
       promises := settle (promise_of c) (Rejected e) (promises s)\<rparr>"
  by (simp add: onmessage_def onmessage_try_def reject_def)

lemma onmessage_result:
  "MapGet (pendingReqs s) i = Some c \<Longrightarrow>
   onmessage (Data i None (Some r)) s =
     s\<lparr>pendingReqs := MapDelete (pendingReqs s) i,
       promises := settle (promise_of c) (Resolved r) (promises s)\<rparr>"
  by (simp add: onmessage_def onmessage_try_def resolve_def)

lemma onmessage_neither:
  "MapGet (pendingReqs s) i = Some c \<Longrightarrow>
   onmessage (Data i None None) s =
     s\<lparr>pendingReqs := MapDelete (pendingReqs s) i,
       console_error := console_error s @ [Response_with_no_result_or_error i]\<rparr>"
  by (simp add: onmessage_def onmessage_try_def)

lemma MapGet_Some: "MapGet m i = Some c \<Longrightarrow> \<exists>n. i = Some n \<and> m n = Some c"
  by (cases i) (simp_all add: MapGet_def)

lemma table_ok_remove_settle:
  assumes "table_ok s" and "pendingReqs s n = Some c"
  shows "table_ok (s\<lparr>pendingReqs := (pendingReqs s)(n := None),
       promises := settle (promise_of c) outcome (promises s)\<rparr>)"
proof -
  let ?s' = "s\<lparr>pendingReqs := (pendingReqs s)(n := None),
       promises := settle (promise_of c) outcome (promises s)\<rparr>"
  have inj: "\<And>m m' d. pendingReqs s m = Some d \<Longrightarrow> pendingReqs s m' = Some d \<Longrightarrow> m = m'"
    using assms(1) unfolding table_ok_def by blast
  have old: "\<And>m h. pendingReqs s m = Some (Callbacks h) \<Longrightarrow>
      h < length (promises s) \<and> promises s ! h = Pending \<and> 1 \<le> m \<and> m \<le> reqID s"
    using assms(1) by (simp add: table_ok_def)
  have a: "h < length (promises ?s') \<and> promises ?s' ! h = Pending \<and> 1 \<le> m \<and> m \<le> reqID ?s'"
    if "pendingReqs ?s' m = Some (Callbacks h)" for m h
  proof -
    from that have mn: "m \<noteq> n" and m: "pendingReqs s m = Some (Callbacks h)"
      by (auto split: if_splits)
    have "Callbacks h \<noteq> c" using inj[OF m, of n] assms(2) mn by auto
    then have "h \<noteq> promise_of c" by (cases c) auto
    with old[OF m] show ?thesis by (simp add: settle_def)
  qed
  have b: "m = m'" if "pendingReqs ?s' m = Some d" "pendingReqs ?s' m' = Some d" for m m' d
  proof -
    from that have "pendingReqs s m = Some d" "pendingReqs s m' = Some d"
      by (auto split: if_splits)
    then show ?thesis by (rule inj)
  qed
  show ?thesis unfolding table_ok_def using a b by blast
qed

lemma table_ok_remove:
  assumes "table_ok s"
  shows "table_ok (s\<lparr>pendingReqs := (pendingReqs s)(n := None), console_error := l\<rparr>)"
  using assms unfolding table_ok_def by (auto split: if_splits)

lemma table_ok_log:
  assumes "table_ok s"
  shows "table_ok (s\<lparr>console_error := l\<rparr>)"
  using assms unfolding table_ok_def by auto

lemma table_ok_onmessage:
  assumes "table_ok s"
  shows "table_ok (onmessage data s)"
proof (cases data)
  case Unparsable
  then show ?thesis using table_ok_log[OF assms] by (simp add: onmessage_unparsable)
next
  case (Data i err res)
  show ?thesis
  proof (cases "MapGet (pendingReqs s) i")
    case None
    with Data show ?thesis using table_ok_log[OF assms] by (simp add: onmessage_unknown)
  next
    case (Some c)
    from MapGet_Some[OF Some] obtain n where n: "i = Some n" "pendingReqs s n = Some c"
      by blast
    show ?thesis
    proof (cases err)
      case (Some e)
      with Data \<open>MapGet (pendingReqs s) i = Some c\<close> show ?thesis
        using table_ok_remove_settle[OF assms n(2)] n(1)
        by (simp add: onmessage_error MapDelete_def)
    next
      case None note noerr = this
      show ?thesis
      proof (cases res)
        case (Some r)
        with Data \<open>MapGet (pendingReqs s) i = Some c\<close> noerr show ?thesis
          using table_ok_remove_settle[OF assms n(2)] n(1)
          by (simp add: onmessage_result MapDelete_def)
      next
        case None
        with Data \<open>MapGet (pendingReqs s) i = Some c\<close> noerr show ?thesis
          using table_ok_remove[OF assms] n(1)
          by (simp add: onmessage_neither MapDelete_def)
      qed
    qed
  qed
qed

lemma table_ok_run: "table_ok s \<Longrightarrow> table_ok (run evs s)"
proof (induction evs arbitrary: s)
  case Nil
  then show ?case by simp
next
  case (Cons ev evs)
  then show ?case by (cases ev) (simp_all add: table_ok_request table_ok_onmessage)
qed

lemma table_ok_reachable: "table_ok (run evs init_server)"
  by (rule table_ok_run[OF table_ok_init])

lemma settle_pending:
  "h < length ps \<Longrightarrow> ps ! h = Pending \<Longrightarrow> settle h outcome ps = ps[h := outcome]"
  by (simp add: settle_def)

lemma onmessage_keeps:
  "reqID (onmessage data s) = reqID s" "sent (onmessage data s) = sent s"
  by (auto simp: onmessage_def onmessage_try_def resolve_def reject_def Let_def
      split: inbound.splits option.splits)

lemma ids_ok_step: "ids_ok s \<Longrightarrow> ids_ok (step ev s)"
proof (cases ev)
  case (Call m p)
  assume ok: "ids_ok s"
  show ?thesis
  proof (cases "reqID s < 2 ^ 53")
    case True
    with ok have "map req_id (sent s) = [1..<Suc (reqID s)]" by (simp add: ids_ok_def)
    with True Call show ?thesis by (simp add: ids_ok_def request_fields increment_def)
  next
    case False
    with Call show ?thesis by (simp add: ids_ok_def request_fields increment_def)
  qed
next
  case (Inbound data)
  assume "ids_ok s"
  with Inbound show ?thesis by (simp add: ids_ok_def onmessage_keeps)
qed

lemma ids_ok_run: "ids_ok s \<Longrightarrow> ids_ok (run evs s)"
  by (induction evs arbitrary: s) (simp_all add: ids_ok_step)

lemma ids_ok_reachable: "ids_ok (run evs init_server)"
  by (rule ids_ok_run) (simp add: ids_ok_def init_server_def)

subsection \<open>Replies are matched by id\<close>

text \<open>
  Claim C1. In every state the server reaches, by any interleaving of calls and inbound
  frames, let \<open>n\<close> be an id with a pending entry, registered for the promise \<open>h\<close>. That
  promise is still pending. A frame with id \<open>n\<close> that has an \<open>error\<close> rejects exactly the promise
  \<open>h\<close> with that error, and a frame with id \<open>n\<close> that has a \<open>result\<close> and no \<open>error\<close> resolves
  exactly the promise \<open>h\<close> with that result. Every other promise is left as it was, the entry
  of \<open>n\<close> is removed and nothing is logged. The state is arbitrary, so the order in which
  the replies arrive plays no part. The entry of an id is the one \<open>request\<close> stored: a call
  registers the promise it returns under the id of the frame it sends.
\<close>

theorem reply_completes_exactly_the_registered_call:
  assumes "pendingReqs (run evs init_server) n = Some (Callbacks h)"
  shows "(let s = run evs init_server;
              failure = onmessage (Data (Some n) (Some e) res) s;
              success = onmessage (Data (Some n) None (Some r)) s
          in h < length (promises s) \<and> promises s ! h = Pending \<and>
             promises failure = (promises s)[h := Rejected e] \<and>
             promises success = (promises s)[h := Resolved r] \<and>
             promises failure ! h = Rejected e \<and>
             promises success ! h = Resolved r \<and>
             (\<forall>h'. h' \<noteq> h \<longrightarrow> promises failure ! h' = promises s ! h' \<and>
                              promises success ! h' = promises s ! h') \<and>
             pendingReqs failure = (pendingReqs s)(n := None) \<and>
             pendingReqs success = (pendingReqs s)(n := None) \<and>
             console_error failure = console_error s \<and>
             console_error success = console_error s \<and>
             pendingReqs (snd (request method params s)) (req_id (last (sent (snd (request method params s)))))
               = Some (Callbacks (fst (request method params s))))"
proof -
  let ?s = "run evs init_server"
  have ok: "table_ok ?s" by (rule table_ok_reachable)
  with assms have h: "h < length (promises ?s)" "promises ?s ! h = Pending"
    unfolding table_ok_def by blast+
  have get: "MapGet (pendingReqs ?s) (Some n) = Some (Callbacks h)"
    using assms by (simp add: MapGet_def)
  show ?thesis
    unfolding Let_def
    by (simp add: onmessage_error[OF get] onmessage_result[OF get] settle_pending[OF h] h MapDelete_def
        request_fields)
qed

theorem reply_completes_exactly_the_registered_call_witness:
  "pendingReqs (run [Call ''Runtime.evaluate'' (), Call ''Runtime.awaitPromise'' ()]
       (init_server :: (string, string, unit) REPLServer)) 2
     = Some (Callbacks 1) \<and>
   promises (run [Call ''Runtime.evaluate'' (), Call ''Runtime.awaitPromise'' (),
                  Inbound (Data (Some 2) None (Some ''second'')),
                  Inbound (Data (Some 1) (Some ''first failed'') None)] init_server)
     = [Rejected ''first failed'', Resolved ''second'']"
  using reply_completes_exactly_the_registered_call
    [of "[Call ''Runtime.evaluate'' (), Call ''Runtime.awaitPromise'' ()]" 2 1 "''e''" None "''second''"]
  by (simp add: request_def Let_def init_server_def increment_def onmessage_def onmessage_try_def
      resolve_def reject_def settle_def MapGet_def MapDelete_def)

subsection \<open>Frames that are not a matching reply\<close>

text \<open>
  Claim C2, as amended. \<open>onmessage\<close> never raises: what its \<open>try\<close> block throws is caught
  and logged. A frame that cannot be parsed, or whose id has no pending entry, is logged
  and changes nothing else: the table and every promise are as before. A frame whose id
  has a pending entry and that carries neither \<open>result\<close> nor \<open>error\<close> is logged and completes
  no promise, and every other entry stays; but the entry of its own id is removed from the
  table, because \<open>MapDelete\<close> runs before the frame is inspected.
\<close>

theorem frame_without_matching_reply_is_logged:
  "onmessage Unparsable s = s\<lparr>console_error := console_error s @ [JSONParse_failed]\<rparr> \<and>
   (MapGet (pendingReqs s) i = None \<longrightarrow>
      onmessage (Data i err res) s =
        s\<lparr>console_error := console_error s @ [Message_for_unknown_request_ID i]\<rparr>) \<and>
   (MapGet (pendingReqs s) i \<noteq> None \<longrightarrow>
      onmessage (Data i None None) s =
        s\<lparr>pendingReqs := MapDelete (pendingReqs s) i,
          console_error := console_error s @ [Response_with_no_result_or_error i]\<rparr> \<and>
      promises (onmessage (Data i None None) s) = promises s \<and>
      (\<forall>n. Some n \<noteq> i \<longrightarrow>
         pendingReqs (onmessage (Data i None None) s) n = pendingReqs s n))"
  by (auto simp: onmessage_unparsable onmessage_unknown onmessage_neither MapDelete_def
      split: option.splits)

theorem frame_without_matching_reply_is_logged_witness:
  "MapGet (pendingReqs (run [Call ''Runtime.evaluate'' ()]
       (init_server :: (string, string, unit) REPLServer))) (Some 7) = None \<and>
   MapGet (pendingReqs (run [Call ''Runtime.evaluate'' ()]
       (init_server :: (string, string, unit) REPLServer))) (Some 1) \<noteq> None \<and>
   console_error (onmessage (Data (Some 7) None (Some ''late''))
       (run [Call ''Runtime.evaluate'' ()] (init_server :: (string, string, unit) REPLServer)))
     = [Message_for_unknown_request_ID (Some 7)] \<and>
   console_error (onmessage (Data (Some 1) None None)
       (run [Call ''Runtime.evaluate'' ()] (init_server :: (string, string, unit) REPLServer)))
     = [Response_with_no_result_or_error (Some 1)]"
  using frame_without_matching_reply_is_logged
    [of "run [Call ''Runtime.evaluate'' ()] (init_server :: (string, string, unit) REPLServer)"
        "Some 7" None "Some ''late''"]
    frame_without_matching_reply_is_logged
    [of "run [Call ''Runtime.evaluate'' ()] (init_server :: (string, string, unit) REPLServer)"
        "Some 1" None None]
  by (simp add: request_def Let_def init_server_def increment_def MapGet_def MapDelete_def)

text \<open>
  Claim C2 as stated says that the entry stays in the table when a frame with its id
  carries neither \<open>result\<close> nor \<open>error\<close>. After one call, such a frame for id 1 leaves the
  table without the entry, while the promise of the call is still pending.
\<close>

theorem frame_with_neither_result_nor_error_removes_entry:
  "pendingReqs (run [Call ''Runtime.evaluate'' ()]
       (init_server :: (string, string, unit) REPLServer)) 1 = Some (Callbacks 0) \<and>
   pendingReqs (onmessage (Data (Some 1) None None)
       (run [Call ''Runtime.evaluate'' ()] (init_server :: (string, string, unit) REPLServer))) 1
     = None \<and>
   promises (onmessage (Data (Some 1) None None)
       (run [Call ''Runtime.evaluate'' ()] (init_server :: (string, string, unit) REPLServer)))
     = [Pending]"
  by (simp add: request_def Let_def init_server_def increment_def onmessage_def onmessage_try_def
      MapGet_def MapDelete_def)

subsection \<open>Request ids\<close>

text \<open>
  Claim C9. In every state the server reaches with the counter below \<open>2^53\<close> (the range in
  which \<open>++\<close> on a JavaScript number is exact), the next call of \<open>request\<close> takes the id
  \<open>reqID + 1\<close>. The ids sent so far are \<open>1, 2, ..., reqID\<close>, so with the new one they are
  strictly increasing from 1 and the new id was never used before. No entry of the table
  has the new id, every key of the table is below it, the call adds its entry and changes
  no other, and no two entries of the table stand for the same promise.
\<close>

theorem request_ids_increase_and_are_fresh:
  assumes "reqID (run evs init_server) < 2 ^ 53"
  shows "(let s = run evs init_server; s' = snd (request method params s)
          in reqID s' = reqID s + 1 \<and>
             map req_id (sent s) = [1..<reqID s'] \<and>
             map req_id (sent s') = [1..<reqID s'] @ [reqID s'] \<and>
             sorted_wrt (<) (map req_id (sent s')) \<and>
             reqID s' \<notin> set (map req_id (sent s)) \<and>
             pendingReqs s (reqID s') = None \<and>
             (\<forall>k \<in> dom (pendingReqs s). 1 \<le> k \<and> k < reqID s') \<and>
             pendingReqs s' = (pendingReqs s)(reqID s' \<mapsto> Callbacks (fst (request method params s))) \<and>
             (\<forall>k k' c. pendingReqs s' k = Some c \<and> pendingReqs s' k' = Some c \<longrightarrow> k = k'))"
proof -
  let ?s = "run evs init_server"
  have ok: "table_ok ?s" by (rule table_ok_reachable)
  have ids: "map req_id (sent ?s) = [1..<Suc (reqID ?s)]"
    using ids_ok_reachable[of evs] assms by (simp add: ids_ok_def)
  have inc: "increment (reqID ?s) = Suc (reqID ?s)" using assms by (simp add: increment_def)
  have dom: "1 \<le> k \<and> k \<le> reqID ?s" if "k \<in> dom (pendingReqs ?s)" for k
  proof -
    from that obtain c where "pendingReqs ?s k = Some c" by blast
    then show ?thesis using ok unfolding table_ok_def by (cases c) blast
  qed
  have fresh: "pendingReqs ?s (Suc (reqID ?s)) = None"
  proof (rule ccontr)
    assume "pendingReqs ?s (Suc (reqID ?s)) \<noteq> None"
    then have "Suc (reqID ?s) \<in> dom (pendingReqs ?s)" by blast
    from dom[OF this] show False by simp
  qed
  have inj: "\<And>k k' c. pendingReqs (snd (request method params ?s)) k = Some c \<and>
      pendingReqs (snd (request method params ?s)) k' = Some c \<longrightarrow> k = k'"
    using table_ok_request[OF ok, of "method" "params"] unfolding table_ok_def by blast
  have sorted: "sorted_wrt (<) ([1..<Suc (reqID ?s)] @ [Suc (reqID ?s)])"
    by (simp add: sorted_wrt_append)
  let ?s' = "snd (request method params ?s)"
  have r: "reqID ?s' = Suc (reqID ?s)"
    "map req_id (sent ?s') = [1..<Suc (reqID ?s)] @ [Suc (reqID ?s)]"
    "pendingReqs ?s' = (pendingReqs ?s)(Suc (reqID ?s) \<mapsto> Callbacks (fst (request method params ?s)))"
    by (simp_all add: request_fields inc ids)
  have c1: "reqID ?s' = reqID ?s + 1" using r(1) by simp
  have c2: "map req_id (sent ?s) = [1..<reqID ?s']" using ids r(1) by simp
  have c3: "map req_id (sent ?s') = [1..<reqID ?s'] @ [reqID ?s']" using r(1,2) by simp
  have c4: "sorted_wrt (<) (map req_id (sent ?s'))" using sorted r(2) by simp
  have c5: "reqID ?s' \<notin> set (map req_id (sent ?s))" unfolding ids r(1) by simp
  have c6: "pendingReqs ?s (reqID ?s') = None" using fresh r(1) by simp
  have c7: "\<forall>k \<in> dom (pendingReqs ?s). 1 \<le> k \<and> k < reqID ?s'"
    using dom r(1) by (auto simp: less_Suc_eq_le)
  have c8: "pendingReqs ?s' = (pendingReqs ?s)(reqID ?s' \<mapsto> Callbacks (fst (request method params ?s)))"
    using r(1,3) by simp
  have c9: "\<forall>k k' c. pendingReqs ?s' k = Some c \<and> pendingReqs ?s' k' = Some c \<longrightarrow> k = k'"
    using inj by blast
  show ?thesis
    unfolding Let_def using c1 c2 c3 c4 c5 c6 c7 c8 c9 by blast
qed

theorem request_ids_increase_and_are_fresh_witness:
  "reqID (run [Call ''Runtime.enable'' (), Call ''Runtime.evaluate'' (),
               Inbound (Data (Some 1) None (Some ''ok''))]
       (init_server :: (string, string, unit) REPLServer)) < 2 ^ 53 \<and>
   map req_id (sent (snd (request ''Runtime.evaluate'' ()
     (run [Call ''Runtime.enable'' (), Call ''Runtime.evaluate'' (),
               Inbound (Data (Some 1) None (Some ''ok''))]
       (init_server :: (string, string, unit) REPLServer))))) = [1, 2, 3]"
  using request_ids_increase_and_are_fresh
    [of "[Call ''Runtime.enable'' (), Call ''Runtime.evaluate'' (),
               Inbound (Data (Some 1) None (Some ''ok''))] :: (string, string, unit) event list"
        "''Runtime.evaluate''" "()"]
  by (simp add: request_def Let_def init_server_def increment_def onmessage_def onmessage_try_def
      resolve_def reject_def settle_def MapGet_def MapDelete_def)


section \<open>Properties of \<open>SafeInspect\<close>\<close>

lemma SafeInspect_primary:
  "utl_inspect I val options = Inr s \<Longrightarrow>
   SafeInspect P I val options = (Inr s, \<lparr>opts = options, warned = []\<rparr>)"
  by (simp add: SafeInspect_def try_catch_def callee_def)

lemma SafeInspect_secondary:
  "utl_inspect I val options = Inl x \<Longrightarrow> fallback_options options = Some o' \<Longrightarrow>
   bunInspect I val o' = Inr s \<Longrightarrow>
   SafeInspect P I val options = (Inr s, \<lparr>opts = o', warned = []\<rparr>)"
  by (auto simp: SafeInspect_def try_catch_def callee_def fallback_options_def Let_def
      split: option.splits)

text \<open>What the outer \<open>catch\<close> clause returns: the coercion, or the empty string.\<close>

definition coercion :: "palette \<Rightarrow> ('v, 'x) inspectors \<Rightarrow> 'v \<Rightarrow> string" where
  "coercion P I val =
     (case console_warn I (all_failed_warning P) of
        Inl z \<Rightarrow> []
      | Inr u \<Rightarrow>
          (case concat_empty I val of
             Inr (Str str) \<Rightarrow> str
           | Inr Not_a_string \<Rightarrow> []
           | Inl z \<Rightarrow> []))"

lemma SafeInspect_secondary_throws:
  "utl_inspect I val options = Inl x \<Longrightarrow> fallback_options options = Some o' \<Longrightarrow>
   bunInspect I val o' = Inl y \<Longrightarrow>
   fst (SafeInspect P I val options) = Inr (coercion P I val)"
  by (auto simp: SafeInspect_def try_catch_def callee_def fallback_options_def coercion_def Let_def
      split: option.splits sum.splits coerced.splits)

lemma SafeInspect_assignment_throws:
  "utl_inspect I val options = Inl x \<Longrightarrow> fallback_options options = None \<Longrightarrow>
   fst (SafeInspect P I val options) = Inr (coercion P I val)"
  by (auto simp: SafeInspect_def try_catch_def callee_def fallback_options_def coercion_def Let_def
      split: option.splits sum.splits coerced.splits)

lemma SafeInspect_returns: "\<exists>str. fst (SafeInspect P I val options) = Inr str"
proof (cases "utl_inspect I val options")
  case (Inr s)
  then show ?thesis by (simp add: SafeInspect_primary)
next
  case (Inl x)
  show ?thesis
  proof (cases "fallback_options options")
    case None
    with Inl show ?thesis by (simp add: SafeInspect_assignment_throws)
  next
    case (Some o')
    show ?thesis
    proof (cases "bunInspect I val o'")
      case (Inr s)
      with Inl Some show ?thesis by (simp add: SafeInspect_secondary)
    next
      case (Inl y)
      with \<open>utl_inspect I val options = Inl x\<close> Some show ?thesis
        by (simp add: SafeInspect_secondary_throws)
    qed
  qed
qed

text \<open>
  Claim C8. For every value, every options object (frozen or not, with data or accessor
  properties) and whatever the inspectors do, \<open>SafeInspect\<close> returns a string and never
  raises. It returns what \<open>utl.inspect\<close> returns. When that throws, it adjusts the options
  and returns what \<open>Bun.inspect\<close> returns on the adjusted options. When the adjustment
  throws (a property that cannot be read or assigned), or \<open>Bun.inspect\<close> throws, it returns
  the string \<open>val + ''\<close>, and the empty string when the concatenation yields no string or
  throws (or when the warning itself throws).
\<close>

theorem SafeInspect_never_raises:
  "(\<exists>str. fst (SafeInspect P I val options) = Inr str) \<and>
   (\<forall>s. utl_inspect I val options = Inr s \<longrightarrow> fst (SafeInspect P I val options) = Inr s) \<and>
   (\<forall>x o' s. utl_inspect I val options = Inl x \<and> fallback_options options = Some o' \<and>
          bunInspect I val o' = Inr s \<longrightarrow>
          fst (SafeInspect P I val options) = Inr s) \<and>
   (\<forall>x. utl_inspect I val options = Inl x \<and>
        (fallback_options options = None \<or>
         (\<exists>o' y. fallback_options options = Some o' \<and> bunInspect I val o' = Inl y)) \<longrightarrow>
        fst (SafeInspect P I val options) =
          Inr (case console_warn I (all_failed_warning P) of
                 Inl z \<Rightarrow> []
               | Inr u \<Rightarrow> (case concat_empty I val of
                             Inr (Str str) \<Rightarrow> str
                           | Inr Not_a_string \<Rightarrow> []
                           | Inl z \<Rightarrow> [])))"
  using SafeInspect_returns[of P I val options]
  by (auto simp: SafeInspect_primary SafeInspect_secondary SafeInspect_secondary_throws
      SafeInspect_assignment_throws coercion_def)

theorem SafeInspect_never_raises_witness:
  "SafeInspect example_palette
     \<lparr>utl_inspect = (\<lambda>v options. Inl ''TypeError''), bunInspect = (\<lambda>v options. Inl ''TypeError''),
       console_warn = (\<lambda>line. Inr ()), concat_empty = (\<lambda>v. Inl ''TypeError'')\<rparr> ()
     \<lparr>depth = Data_property depth_null True, sorted = Data_property sorted_function True,
       colors = None, showProxy = None\<rparr>
     = (Inr [], \<lparr>opts = \<lparr>depth = Data_property depth_Infinity True,
                           sorted = Data_property (sorted_boolean True) True, colors = None,
                           showProxy = None\<rparr>,
                 warned = [all_failed_warning example_palette]\<rparr>) \<and>
   fallback_options
     \<lparr>depth = Data_property depth_null False, sorted = Data_property sorted_unset False,
       colors = None, showProxy = None\<rparr> = None \<and>
   SafeInspect example_palette
     \<lparr>utl_inspect = (\<lambda>v options. Inl ''TypeError''), bunInspect = (\<lambda>v options. Inr ''B''),
       console_warn = (\<lambda>line. Inr ()), concat_empty = (\<lambda>v. Inr (Str ''co''))\<rparr> ()
     \<lparr>depth = Data_property depth_null False, sorted = Data_property sorted_unset False,
       colors = None, showProxy = None\<rparr>
     = (Inr ''co'', \<lparr>opts = \<lparr>depth = Data_property depth_null False,
                              sorted = Data_property sorted_unset False, colors = None,
                              showProxy = None\<rparr>,
                    warned = [all_failed_warning example_palette]\<rparr>) \<and>
   fst (SafeInspect example_palette
     \<lparr>utl_inspect = (\<lambda>v options. Inl ''TypeError''), bunInspect = (\<lambda>v options. Inr ''B''),
       console_warn = (\<lambda>line. Inr ()), concat_empty = (\<lambda>v. Inr (Str ''co''))\<rparr> ()
     \<lparr>depth = Data_property depth_null True, sorted = Data_property sorted_unset False,
       colors = None, showProxy = None\<rparr>) = Inr ''B''"
  using SafeInspect_never_raises
    [of example_palette
        "\<lparr>utl_inspect = (\<lambda>v options. Inl ''TypeError''), bunInspect = (\<lambda>v options. Inl ''TypeError''),
          console_warn = (\<lambda>line. Inr ()), concat_empty = (\<lambda>v. Inl ''TypeError'')\<rparr>" "()"
        "\<lparr>depth = Data_property depth_null True, sorted = Data_property sorted_function True,
          colors = None, showProxy = None\<rparr>"]
    SafeInspect_never_raises
    [of example_palette
        "\<lparr>utl_inspect = (\<lambda>v options. Inl ''TypeError''), bunInspect = (\<lambda>v options. Inr ''B''),
          console_warn = (\<lambda>line. Inr ()), concat_empty = (\<lambda>v. Inr (Str ''co''))\<rparr>" "()"
        "\<lparr>depth = Data_property depth_null False, sorted = Data_property sorted_unset False,
          colors = None, showProxy = None\<rparr>"]
  by (simp add: SafeInspect_def try_catch_def fallback_options_def set_depth_def set_sorted_def
      read_property_def assign_property_def callee_def Let_def)

section \<open>Properties of \<open>eval\<close>\<close>

lemma with_wasThrown_simps:
  "type (with_wasThrown r w) = type r" "subtype (with_wasThrown r w) = subtype r"
  "description (with_wasThrown r w) = description r"
  "wasThrown (with_wasThrown r w) = w" "wasRejectedPromise (with_wasThrown r w) = False"
  by (simp_all add: with_wasThrown_def)

lemma await_cases:
  "await Pending = Inl Never_returns"
  "await (Rejected e) = Inl (Throws (Request_rejected e))"
  "await (Resolved r) = Inr r"
  by (simp_all add: await_def)

lemma await_Inr: "await p = Inr r \<longleftrightarrow> p = Resolved r"
  by (cases p) (simp_all add: await_def)

lemma ObjectTypeHandler_frame:
  assumes "ObjectTypeHandler H tla res remoteObj st = (r, st')"
  shows "extraOut st' = extraOut st \<and> GLOBAL st' = GLOBAL st \<and>
         writer_options st' = writer_options st \<and>
         filter is_callFunctionOn (requests st') = filter is_callFunctionOn (requests st)"
  using assms
  by (auto simp: ObjectTypeHandler_def send_request_def Let_def
      split: if_splits option.splits sum.splits prod.splits)

lemma working_value_frame:
  assumes "working_value H code tla st = (r, st')"
  shows "extraOut st' = extraOut st \<and> GLOBAL st' = GLOBAL st \<and>
         writer_options st' = writer_options st \<and>
         filter is_callFunctionOn (requests st') = filter is_callFunctionOn (requests st)"
proof (cases "await (respond H (Runtime_evaluate code True)) :: (('a, 'b) outcome + EvaluateResponse)")
  case (Inl ending)
  with assms show ?thesis by (auto simp: working_value_def Let_def send_request_def)
next
  case (Inr response)
  with assms have "ObjectTypeHandler H tla (result response)
      (with_wasThrown (result response) (thrown response))
      (send_request (Runtime_evaluate code True) st) = (r, st')"
    by (simp add: working_value_def Let_def)
  from ObjectTypeHandler_frame[OF this] show ?thesis by (simp add: send_request_def)
qed


lemma eval_of_working_value:
  "working_value H code tla st = (Inr remoteObj, st') \<Longrightarrow>
   eval H code tla st =
     (if type remoteObj = type_bigint then eval_bigint H remoteObj st'
      else eval_render H remoteObj st')"
  by (simp add: eval_def)

lemma eval_render_finalize:
  assumes "respond H (Runtime_callFunctionOn (wasThrown remoteObj)
              (subtype remoteObj = Some subtype_error) remoteObj) = Resolved inspected"
      and "\<not> thrown inspected" and "type (result inspected) = type_string"
  shows "fst (eval_render H remoteObj st') =
           Returns (if wasThrown remoteObj \<and> subtype remoteObj \<noteq> Some subtype_error
                    then Uncaught (palette_of H) @ string_value (result inspected)
                    else string_value (result inspected))"
    and "extraOut (snd (eval_render H remoteObj st')) =
           map_option (\<lambda>out. \<lparr>errored = errored out \<or> wasThrown remoteObj,
                               noPrintError = noPrintError out \<or> wasRejectedPromise remoteObj\<rparr>)
             (extraOut st')"
  using assms
  by (auto simp: eval_render_def Let_def await_cases send_request_def option.map_comp comp_def
      intro!: option.map_cong)

lemma ObjectTypeHandler_working:
  assumes "ObjectTypeHandler H tla res (with_wasThrown res w) st = (Inr remoteObj, st')"
  shows "(if tla \<and> is_Promise res
          then \<exists>oid awaited. objectId res = Some oid \<and>
                 respond H (Runtime_awaitPromise oid False) = Resolved awaited \<and>
                 wasThrown remoteObj = thrown awaited \<and> type remoteObj = type (result awaited)
          else wasThrown remoteObj = w \<and> type remoteObj = type res) \<and>
         wasRejectedPromise remoteObj =
           (is_Promise res \<and> (\<exists>pv. preview res = Some pv \<and> status_rejected pv))"
  using assms
  by (auto simp: ObjectTypeHandler_def is_Promise_def send_request_def Let_def with_wasThrown_simps
      await_Inr split: if_splits option.splits sum.splits prod.splits)


lemma working_value_working:
  assumes "working_value H code tla st = (Inr remoteObj, st')"
  shows "\<exists>response. respond H (Runtime_evaluate code True) = Resolved response \<and>
           (if tla \<and> is_Promise (result response)
            then \<exists>oid awaited. objectId (result response) = Some oid \<and>
                   respond H (Runtime_awaitPromise oid False) = Resolved awaited \<and>
                   wasThrown remoteObj = thrown awaited
            else wasThrown remoteObj = thrown response) \<and>
           wasRejectedPromise remoteObj =
             (is_Promise (result response) \<and>
              (\<exists>pv. preview (result response) = Some pv \<and> status_rejected pv))"
proof (cases "respond H (Runtime_evaluate code True)")
  case Pending
  with assms show ?thesis by (simp add: working_value_def Let_def await_cases)
next
  case (Rejected e)
  with assms show ?thesis by (simp add: working_value_def Let_def await_cases)
next
  case (Resolved response)
  with assms have "ObjectTypeHandler H tla (result response)
      (with_wasThrown (result response) (thrown response))
      (send_request (Runtime_evaluate code True) st) = (Inr remoteObj, st')"
    by (simp add: working_value_def Let_def await_cases)
  from ObjectTypeHandler_working[OF this] Resolved show ?thesis by auto
qed

lemma eval_bigint_frame:
  "extraOut (snd (eval_bigint H remoteObj st)) = extraOut st"
  "requests (snd (eval_bigint H remoteObj st)) = requests st"
  by (auto simp: eval_bigint_def Let_def split: option.splits prod.splits sum.splits)

lemma eval_bigint_no_description:
  "description remoteObj = None \<or> description remoteObj = Some [] \<Longrightarrow>
   eval_bigint H remoteObj st =
     (Throws (EvalError Received_BigInt_value_without_description), st)"
  by (auto simp: eval_bigint_def)

lemma eval_bigint_not_read:
  "description remoteObj = Some d \<Longrightarrow> d \<noteq> [] \<Longrightarrow> BigInt H (butlast d) = None \<Longrightarrow>
   eval_bigint H remoteObj st = (Throws SyntaxError, st)"
  by (simp add: eval_bigint_def)

lemma eval_bigint_parsed:
  assumes "description remoteObj = Some d" "d \<noteq> []" "BigInt H (butlast d) = Some v"
      and "fst (SafeInspect (palette_of H) (inspectors_of H) v
             (case writer_options st of Some w \<Rightarrow> w | None \<Rightarrow> default_options H)) = Inr text"
  shows "fst (eval_bigint H remoteObj st) =
           Returns ((if wasThrown remoteObj then Uncaught (palette_of H) else []) @ text)"
    and "GLOBAL (snd (eval_bigint H remoteObj st)) =
           (GLOBAL st)((if wasThrown remoteObj then ''_error'' else ''_'') \<mapsto> BigInt_value v)"
  using assms
  by (auto simp: eval_bigint_def Let_def split: prod.splits sum.splits)

lemmas eval_defs =
  eval_def working_value_def ObjectTypeHandler_def eval_render_def eval_bigint_def await_def
  send_request_def with_wasThrown_def status_rejected_def Uncaught_def default_options_def
  SafeInspect_def try_catch_def fallback_options_def set_depth_def set_sorted_def read_property_def
  assign_property_def callee_def all_failed_warning_def REPL_INTERNALS_def
  tla_warning_def Let_def

lemmas example_defs =
  example_host_def example_respond_def example_object_def example_state_def example_palette_def
  example_inspectors_def example_BigInt_def malformed_bigint_host_def

subsection \<open>The flags written at the end\<close>

text \<open>
  Claim C4, as amended. Take an evaluation that reaches the last lines of \<open>eval\<close>: there is
  a working value, it is no \<open>bigint\<close>, and the render call is answered, did not throw and
  gave a string. Then \<open>errored\<close> of \<open>extraOut\<close> is set when \<open>wasThrown\<close> of the working value is
  set and \<open>noPrintError\<close> is set when its \<open>wasRejectedPromise\<close> is set; a flag is never
  cleared. \<open>wasThrown\<close> of the working value is that of the reply to \<open>Runtime.awaitPromise\<close>
  when the value was a promise and was awaited, and that of the reply to \<open>Runtime.evaluate\<close>
  otherwise; the render call's \<open>wasThrown\<close> plays no part. \<open>wasRejectedPromise\<close> is set when
  the evaluated value is a promise whose preview has the status \<open>rejected\<close>.
\<close>

theorem finalize_flags_follow_the_working_value:
  assumes "working_value H code tla st = (Inr remoteObj, st')"
      and "type remoteObj \<noteq> type_bigint"
      and "respond H (Runtime_callFunctionOn (wasThrown remoteObj)
              (subtype remoteObj = Some subtype_error) remoteObj) = Resolved inspected"
      and "\<not> thrown inspected" and "type (result inspected) = type_string"
  shows "extraOut (snd (eval H code tla st)) =
           map_option (\<lambda>out. \<lparr>errored = errored out \<or> wasThrown remoteObj,
                               noPrintError = noPrintError out \<or> wasRejectedPromise remoteObj\<rparr>)
             (extraOut st) \<and>
         (\<exists>response. respond H (Runtime_evaluate code True) = Resolved response \<and>
            (if tla \<and> is_Promise (result response)
             then \<exists>oid awaited. objectId (result response) = Some oid \<and>
                    respond H (Runtime_awaitPromise oid False) = Resolved awaited \<and>
                    wasThrown remoteObj = thrown awaited
             else wasThrown remoteObj = thrown response) \<and>
            wasRejectedPromise remoteObj =
              (is_Promise (result response) \<and>
               (\<exists>pv. preview (result response) = Some pv \<and> status_rejected pv)))"
proof -
  have "extraOut st' = extraOut st" using working_value_frame[OF assms(1)] by simp
  then have "extraOut (snd (eval H code tla st)) =
           map_option (\<lambda>out. \<lparr>errored = errored out \<or> wasThrown remoteObj,
                               noPrintError = noPrintError out \<or> wasRejectedPromise remoteObj\<rparr>)
             (extraOut st)"
    using eval_render_finalize(2)[OF assms(3,4,5), of st'] assms(2)
    by (simp add: eval_of_working_value[OF assms(1)])
  with working_value_working[OF assms(1)] show ?thesis by blast
qed

theorem finalize_flags_follow_the_working_value_witness:
  "working_value example_host ''(async()=>{return await Promise.reject(5);})();'' True example_state =
     (Inr (with_wasThrown (example_object type_number ''5'') True),
      send_request (Runtime_awaitPromise ''2'' False)
        (send_request (Runtime_evaluate ''(async()=>{return await Promise.reject(5);})();'' True)
           example_state)) \<and>
   extraOut (snd (eval example_host ''(async()=>{return await Promise.reject(5);})();'' True
                    example_state)) =
     Some \<lparr>errored = True, noPrintError = False\<rparr>"
  using finalize_flags_follow_the_working_value
    [of example_host "''(async()=>{return await Promise.reject(5);})();''" True example_state
        "with_wasThrown (example_object type_number ''5'') True"
        "send_request (Runtime_awaitPromise ''2'' False)
          (send_request (Runtime_evaluate ''(async()=>{return await Promise.reject(5);})();'' True)
             example_state)"
        "\<lparr>result = (example_object type_string [])\<lparr>string_value := ''5''\<rparr>, thrown = False\<rparr>"]
  by (simp add: eval_defs example_defs)

text \<open>
  Claim C4 as stated takes \<open>errored\<close> from the reply to the original \<open>Runtime.evaluate\<close>
  also when the promise was awaited. For the wrapped fragment \<open>await Promise.reject(5)\<close> the
  reply to \<open>Runtime.evaluate\<close> is a promise with \<open>wasThrown\<close> false, the reply to
  \<open>Runtime.awaitPromise\<close> has \<open>wasThrown\<close> true, and \<open>eval\<close> sets \<open>errored\<close>.
\<close>

theorem errored_is_not_the_original_wasThrown:
  "respond example_host (Runtime_evaluate ''(async()=>{return await Promise.reject(5);})();'' True) =
     Resolved \<lparr>result = (example_object type_object ''Promise'')
                         \<lparr>objectId := Some ''2'', className := Some ''Promise'',
                          preview := Some \<lparr>properties = Some
                            [\<lparr>property_name = ''status'', property_value = Some ''pending''\<rparr>]\<rparr>\<rparr>,
               thrown = False\<rparr> \<and>
   eval example_host ''(async()=>{return await Promise.reject(5);})();'' True example_state =
     (Returns (red example_palette @ ''Uncaught '' @ reset example_palette @ ''5''),
      example_state
        \<lparr>requests :=
           [Runtime_evaluate ''(async()=>{return await Promise.reject(5);})();'' True,
            Runtime_awaitPromise ''2'' False,
            Runtime_callFunctionOn True False (with_wasThrown (example_object type_number ''5'') True)],
         extraOut := Some \<lparr>errored = True, noPrintError = False\<rparr>\<rparr>)"
  by (simp add: eval_defs example_defs fun_eq_iff)

subsection \<open>Values of type \<open>bigint\<close>\<close>

text \<open>
  Claim C5, as amended. Let the working value have the type \<open>bigint\<close>. With no description
  (absent or empty) \<open>eval\<close> throws the \<open>EvalError\<close> of a \<open>BigInt\<close> without description. With a
  description \<open>d\<close> whose characters before the last one \<open>BigInt\<close> reads as the integer \<open>v\<close>,
  \<open>eval\<close> stores \<open>v\<close> in \<open>_error\<close> when \<open>wasThrown\<close> is set and in \<open>_\<close> otherwise, and returns
  what \<open>SafeInspect\<close> gives for \<open>v\<close>, after the marker (the red colour, \<open>Uncaught\<close> and a space,
  the reset) when \<open>wasThrown\<close> is set. With a description that \<open>BigInt\<close> does not read, \<open>eval\<close>
  throws the \<open>SyntaxError\<close> of \<open>BigInt\<close> and has stored nothing. In every case \<open>eval\<close> sends no
  \<open>Runtime.callFunctionOn\<close>.
\<close>

theorem bigint_is_rendered_without_the_render_call:
  assumes "working_value H code tla st = (Inr remoteObj, st')"
      and "type remoteObj = type_bigint"
  shows "(description remoteObj = None \<or> description remoteObj = Some [] \<longrightarrow>
            fst (eval H code tla st) =
              Throws (EvalError Received_BigInt_value_without_description) \<and>
            GLOBAL (snd (eval H code tla st)) = GLOBAL st) \<and>
         (\<forall>d. description remoteObj = Some d \<and> d \<noteq> [] \<and> BigInt H (butlast d) = None \<longrightarrow>
            fst (eval H code tla st) = Throws SyntaxError \<and>
            GLOBAL (snd (eval H code tla st)) = GLOBAL st) \<and>
         (\<forall>d v. description remoteObj = Some d \<and> d \<noteq> [] \<and> BigInt H (butlast d) = Some v \<longrightarrow>
            (\<exists>text. fst (SafeInspect (palette_of H) (inspectors_of H) v
                       (case writer_options st of Some w \<Rightarrow> w | None \<Rightarrow> default_options H))
                     = Inr text \<and>
               fst (eval H code tla st) =
                 Returns ((if wasThrown remoteObj
                           then red (palette_of H) @ ''Uncaught '' @ reset (palette_of H)
                           else []) @ text) \<and>
               GLOBAL (snd (eval H code tla st)) =
                 (GLOBAL st)((if wasThrown remoteObj then ''_error'' else ''_'') \<mapsto> BigInt_value v))) \<and>
         filter is_callFunctionOn (requests (snd (eval H code tla st))) =
           filter is_callFunctionOn (requests st)"
proof -
  note fr = working_value_frame[OF assms(1)]
  have ev: "eval H code tla st = eval_bigint H remoteObj st'"
    using assms(2) by (simp add: eval_of_working_value[OF assms(1)])
  have a: "fst (eval H code tla st) = Throws (EvalError Received_BigInt_value_without_description) \<and>
           GLOBAL (snd (eval H code tla st)) = GLOBAL st"
    if "description remoteObj = None \<or> description remoteObj = Some []"
    using that fr by (simp add: ev eval_bigint_no_description)
  have n: "fst (eval H code tla st) = Throws SyntaxError \<and>
           GLOBAL (snd (eval H code tla st)) = GLOBAL st"
    if "description remoteObj = Some d" "d \<noteq> []" "BigInt H (butlast d) = None" for d
    using fr by (simp add: ev eval_bigint_not_read[OF that])
  have b: "\<exists>text. fst (SafeInspect (palette_of H) (inspectors_of H) v
                       (case writer_options st of Some w \<Rightarrow> w | None \<Rightarrow> default_options H))
                     = Inr text \<and>
               fst (eval H code tla st) =
                 Returns ((if wasThrown remoteObj
                           then red (palette_of H) @ ''Uncaught '' @ reset (palette_of H)
                           else []) @ text) \<and>
               GLOBAL (snd (eval H code tla st)) =
                 (GLOBAL st)((if wasThrown remoteObj then ''_error'' else ''_'') \<mapsto> BigInt_value v)"
    if d: "description remoteObj = Some d" "d \<noteq> []" "BigInt H (butlast d) = Some v" for d v
  proof -
    obtain rendered where t: "fst (SafeInspect (palette_of H) (inspectors_of H) v
        (case writer_options st' of Some w \<Rightarrow> w | None \<Rightarrow> default_options H)) = Inr rendered"
      using SafeInspect_returns[of "palette_of H" "inspectors_of H" v
          "case writer_options st' of Some w \<Rightarrow> w | None \<Rightarrow> default_options H"]
      by (elim exE)
    from eval_bigint_parsed[OF d t] t fr show ?thesis by (auto simp: ev Uncaught_def)
  qed
  have c: "filter is_callFunctionOn (requests (snd (eval H code tla st))) =
           filter is_callFunctionOn (requests st)"
    using fr by (simp add: ev eval_bigint_frame)
  from a n b c show ?thesis by blast
qed

theorem bigint_is_rendered_without_the_render_call_witness:
  "working_value example_host ''123n'' False example_state =
     (Inr (with_wasThrown (example_object type_bigint ''123n'') False),
      send_request (Runtime_evaluate ''123n'' True) example_state) \<and>
   BigInt example_host (butlast ''123n'') = Some 123 \<and>
   fst (eval example_host ''123n'' False example_state) = Returns ''123n'' \<and>
   GLOBAL (snd (eval example_host ''123n'' False example_state)) ''_'' = Some (BigInt_value 123) \<and>
   GLOBAL (snd (eval example_host ''123n'' False example_state)) ''_error'' = None \<and>
   requests (snd (eval example_host ''123n'' False example_state)) = [Runtime_evaluate ''123n'' True] \<and>
   working_value example_host ''throw 5n'' False example_state =
     (Inr (with_wasThrown (example_object type_bigint ''5n'') True),
      send_request (Runtime_evaluate ''throw 5n'' True) example_state) \<and>
   BigInt example_host (butlast ''5n'') = Some 5 \<and>
   fst (eval example_host ''throw 5n'' False example_state) =
     Returns (CHR 0x1B # ''[31mUncaught '' @ CHR 0x1B # ''[0m5n'') \<and>
   GLOBAL (snd (eval example_host ''throw 5n'' False example_state)) ''_error'' = Some (BigInt_value 5) \<and>
   GLOBAL (snd (eval example_host ''throw 5n'' False example_state)) ''_'' = None \<and>
   requests (snd (eval example_host ''throw 5n'' False example_state)) =
     [Runtime_evaluate ''throw 5n'' True]"
  using bigint_is_rendered_without_the_render_call
    [of example_host "''123n''" False example_state
        "with_wasThrown (example_object type_bigint ''123n'') False"
        "send_request (Runtime_evaluate ''123n'' True) example_state"]
    bigint_is_rendered_without_the_render_call
    [of example_host "''throw 5n''" False example_state
        "with_wasThrown (example_object type_bigint ''5n'') True"
        "send_request (Runtime_evaluate ''throw 5n'' True) example_state"]
  by (simp add: eval_defs example_defs)

text \<open>
  Claim C5 as stated has \<open>eval\<close> parse, store and return for every present description.
  For the description \<open>abc\<close> the built-in rejects the text \<open>ab\<close>: \<open>eval\<close> throws a
  \<open>SyntaxError\<close>, returns no text and stores nothing.
\<close>

theorem bigint_description_that_is_no_numeral_throws:
  "respond malformed_bigint_host (Runtime_evaluate ''f()'' True) =
     Resolved \<lparr>result = example_object type_bigint ''abc'', thrown = False\<rparr> \<and>
   description (example_object type_bigint ''abc'') = Some ''abc'' \<and>
   BigInt malformed_bigint_host (butlast ''abc'') = None \<and>
   eval malformed_bigint_host ''f()'' False example_state =
     (Throws SyntaxError, example_state\<lparr>requests := [Runtime_evaluate ''f()'' True]\<rparr>)"
  by (simp add: eval_defs example_defs)

text \<open>
  Claim C10. When the working value has the type \<open>bigint\<close>, \<open>eval\<close> ends before the lines
  that write \<open>extraOut\<close>: the caller's object is as it was, also when the evaluation threw
  or the value was a rejected promise that was awaited.
\<close>

theorem bigint_leaves_extraOut_unchanged:
  assumes "working_value H code tla st = (Inr remoteObj, st')"
      and "type remoteObj = type_bigint"
  shows "extraOut (snd (eval H code tla st)) = extraOut st"
  using working_value_frame[OF assms(1)] assms(2)
  by (simp add: eval_of_working_value[OF assms(1)] eval_bigint_frame)

theorem bigint_leaves_extraOut_unchanged_witness:
  "working_value example_host ''throw 5n'' False example_state =
     (Inr (with_wasThrown (example_object type_bigint ''5n'') True),
      send_request (Runtime_evaluate ''throw 5n'' True) example_state) \<and>
   fst (eval example_host ''throw 5n'' False example_state) =
     Returns (red example_palette @ ''Uncaught '' @ reset example_palette @ ''5n'') \<and>
   extraOut (snd (eval example_host ''throw 5n'' False example_state)) =
     Some \<lparr>errored = False, noPrintError = False\<rparr>"
  using bigint_leaves_extraOut_unchanged
    [of example_host "''throw 5n''" False example_state
        "with_wasThrown (example_object type_bigint ''5n'') True"
        "send_request (Runtime_evaluate ''throw 5n'' True) example_state"]
  by (simp add: eval_defs example_defs)

subsection \<open>The \<open>Uncaught\<close> marker\<close>

text \<open>
  Claim C7. For an evaluation that reaches the last lines of \<open>eval\<close> (a working value that
  is no \<open>bigint\<close>, and a render call that is answered, did not throw and gave a string), the
  text returned is the rendered string after the \<open>Uncaught\<close> marker when \<open>wasThrown\<close> is set
  and the subtype is not \<open>error\<close>, and the rendered string alone otherwise.
\<close>

theorem Uncaught_prefix_iff_thrown_and_not_error:
  assumes "working_value H code tla st = (Inr remoteObj, st')"
      and "type remoteObj \<noteq> type_bigint"
      and "respond H (Runtime_callFunctionOn (wasThrown remoteObj)
              (subtype remoteObj = Some subtype_error) remoteObj) = Resolved inspected"
      and "\<not> thrown inspected" and "type (result inspected) = type_string"
  shows "fst (eval H code tla st) =
           Returns (if wasThrown remoteObj \<and> subtype remoteObj \<noteq> Some subtype_error
                    then Uncaught (palette_of H) @ string_value (result inspected)
                    else string_value (result inspected))"
  using eval_render_finalize(1)[OF assms(3,4,5)] assms(2)
  by (simp add: eval_of_working_value[OF assms(1)])

theorem Uncaught_prefix_iff_thrown_and_not_error_witness:
  "working_value example_host ''throw 5'' False example_state =
     (Inr (with_wasThrown (example_object type_number ''5'') True),
      send_request (Runtime_evaluate ''throw 5'' True) example_state) \<and>
   fst (eval example_host ''throw 5'' False example_state) =
     Returns (red example_palette @ ''Uncaught '' @ reset example_palette @ ''5'') \<and>
   working_value example_host ''throw new Error'' False example_state =
     (Inr (with_wasThrown ((example_object type_object ''Error'')
                         \<lparr>subtype := Some subtype_error, objectId := Some ''1'',
                          className := Some ''Error''\<rparr>) True),
      send_request (Runtime_evaluate ''throw new Error'' True) example_state) \<and>
   fst (eval example_host ''throw new Error'' False example_state) = Returns ''Error''"
  using Uncaught_prefix_iff_thrown_and_not_error
    [of example_host "''throw 5''" False example_state
        "with_wasThrown (example_object type_number ''5'') True"
        "send_request (Runtime_evaluate ''throw 5'' True) example_state"
        "\<lparr>result = (example_object type_string [])\<lparr>string_value := ''5''\<rparr>, thrown = False\<rparr>"]
    Uncaught_prefix_iff_thrown_and_not_error
    [of example_host "''throw new Error''" False example_state
        "with_wasThrown ((example_object type_object ''Error'')
                         \<lparr>subtype := Some subtype_error, objectId := Some ''1'',
                          className := Some ''Error''\<rparr>) True"
        "send_request (Runtime_evaluate ''throw new Error'' True) example_state"
        "\<lparr>result = (example_object type_string [])\<lparr>string_value := ''Error''\<rparr>, thrown = False\<rparr>"]
  by (simp add: eval_defs example_defs)

section \<open>Properties of the driver\<close>

text \<open>
  Claim C3, as amended. The driver prints the text of a completed evaluation at most once.
  It prints nothing when \<open>noPrintError\<close> is set together with \<open>errored\<close>. An errored result
  that is not suppressed goes to standard error, whatever the print flag. A result that is
  not errored goes to standard output, whether \<open>noPrintError\<close> is set or not: always in
  interactive mode, and in single-shot mode when printing was requested.
\<close>

theorem driver_prints_at_most_once:
  "print_line x t =
     (if errored x then (if noPrintError x then [] else [Stderr t]) else [Stdout t]) \<and>
   print_singleshot p x t =
     (if errored x then (if noPrintError x then [] else [Stderr t])
      else if p then [Stdout t] else [])"
  by (simp add: print_line_def print_singleshot_def)

text \<open>
  Claim C3 as stated has nothing printed when \<open>noPrintError\<close> is set together with no
  error. Both modes print the text to standard output then.
\<close>

theorem suppressed_without_error_is_printed:
  "print_line \<lparr>errored = False, noPrintError = True\<rparr> ''Promise { <rejected> 1 }''
     = [Stdout ''Promise { <rejected> 1 }''] \<and>
   print_singleshot True \<lparr>errored = False, noPrintError = True\<rparr> ''Promise { <rejected> 1 }''
     = [Stdout ''Promise { <rejected> 1 }'']"
  by (simp add: print_line_def print_singleshot_def)

section \<open>Properties of \<open>tryProcessTopLevelAwait\<close>\<close>

lemma match_escape_Some: "match_escape s = Some k \<Longrightarrow> k = 6 \<and> 6 \<le> length s"
  by (auto simp: match_escape_def split: list.splits if_splits)

lemma match_part_Some: "match_part U s = Some k \<Longrightarrow> 0 < k \<and> k \<le> length s"
  by (auto simp: match_part_def split: list.splits if_splits dest: match_escape_Some)

lemma match_start_Some: "match_start U s = Some k \<Longrightarrow> 0 < k \<and> k \<le> length s"
  by (auto simp: match_start_def split: list.splits if_splits dest: match_escape_Some)

lemma match_parts_le: "match_parts U s \<le> length s"
proof (induction U s rule: match_parts.induct)
  case (1 U)
  then show ?case by simp
next
  case (2 U c cs)
  show ?case
  proof (cases "match_part U (c # cs)")
    case None
    then show ?thesis by simp
  next
    case (Some k)
    from 2[OF Some] have a: "match_parts U (drop k (c # cs)) \<le> length (c # cs) - k" by simp
    have b: "match_parts U (c # cs) = k + match_parts U (drop k (c # cs))"
      by (simp add: Some)
    from match_part_Some[OF Some] a b show ?thesis by linarith
  qed
qed

lemma match_varname_Some: "match_varname U s = Some n \<Longrightarrow> 0 < n \<and> n \<le> length s"
proof -
  assume a: "match_varname U s = Some n"
  then obtain k where k: "match_start U s = Some k" "n = k + match_parts U (drop k s)"
    by (auto simp: match_varname_def split: option.splits)
  have "match_parts U (drop k s) \<le> length s - k" using match_parts_le[of U "drop k s"] by simp
  with match_start_Some[OF k(1)] k(2) show ?thesis by linarith
qed

lemma match_spaces_varname_Some:
  "match_spaces_varname U s w0 = Some (w, n) \<Longrightarrow>
   0 < w \<and> w \<le> w0 \<and> 0 < n \<and> n \<le> length s - w"
proof (induction w0)
  case 0
  then show ?case by simp
next
  case (Suc w0)
  show ?case
  proof (cases "match_varname U (drop (Suc w0) s)")
    case None
    with Suc show ?thesis by auto
  next
    case (Some m)
    with Suc.prems have "w = Suc w0" "n = m" by auto
    with match_varname_Some[OF Some] show ?thesis by simp
  qed
qed

lemma take_takeWhile: "w \<le> length (takeWhile P r) \<Longrightarrow> set (take w r) \<subseteq> {c. P c}"
proof -
  assume w: "w \<le> length (takeWhile P r)"
  have "take w r = take w (takeWhile P r @ dropWhile P r)" by simp
  also have "\<dots> = take w (takeWhile P r)" using w by (simp del: takeWhile_dropWhile_id)
  finally have "set (take w r) \<subseteq> set (takeWhile P r)" by (metis set_take_subset)
  then show ?thesis by (auto dest: set_takeWhileD)
qed

lemma match_after_Some:
  assumes "match_after U keyword s = Some (kw, varname, k)"
  shows "kw = keyword \<and> k \<le> length s \<and> varname \<noteq> [] \<and>
         (\<exists>spaces. spaces = take (k - length kw - length varname) (drop (length kw) s) \<and>
            spaces \<noteq> [] \<and> (\<forall>c \<in> set spaces. is_space c) \<and>
            take k s = kw @ spaces @ varname \<and>
            k = length kw + length spaces + length varname)"
proof -
  let ?r = "drop (length keyword) s"
  from assms have pre: "take (length keyword) s = keyword"
    by (auto simp: match_after_def split: if_splits)
  from assms obtain w n where
    m: "match_spaces_varname U ?r (length (takeWhile is_space ?r)) = Some (w, n)"
    and kw: "kw = keyword" and v: "varname = take n (drop w ?r)" and k: "k = length keyword + w + n"
    by (auto simp: match_after_def Let_def split: if_splits option.splits)
  from match_spaces_varname_Some[OF m]
  have w: "0 < w" "w \<le> length (takeWhile is_space ?r)" and n: "0 < n" "n \<le> length ?r - w" by auto
  have "length (take (length keyword) s) = length keyword" using pre by simp
  then have lk: "length keyword \<le> length s" by simp
  have len_v: "length varname = n" using v n by simp
  have wr: "w < length ?r" using n by simp
  have len_sp: "length (take w ?r) = w" using wr by simp
  have sp: "\<forall>c \<in> set (take w ?r). is_space c" using take_takeWhile[OF w(2)] by auto
  have "take k s = take (length keyword) s @ take (w + n) ?r"
    unfolding k by (simp add: take_add add.assoc)
  also have "\<dots> = keyword @ take w ?r @ take n (drop w ?r)" by (simp add: pre take_add)
  finally have tk: "take k s = keyword @ take w ?r @ varname" using v by simp
  have kle: "k \<le> length s" using k n lk by simp
  have kdiff: "k - length kw - length varname = w" using k kw len_v by simp
  show ?thesis
    using kw kle n len_v v w(1) wr sp tk k kdiff len_sp
    by (auto simp: kdiff)
qed

lemma JSVarDeclRegex_Some:
  assumes "JSVarDeclRegex U s = Some (kw, varname, k)"
  shows "kw \<in> {codes ''var'', codes ''let'', codes ''const''} \<and> k \<le> length s \<and> varname \<noteq> [] \<and>
         (\<exists>spaces. spaces = take (k - length kw - length varname) (drop (length kw) s) \<and>
            spaces \<noteq> [] \<and> (\<forall>c \<in> set spaces. is_space c) \<and>
            take k s = kw @ spaces @ varname \<and>
            k = length kw + length spaces + length varname)"
proof -
  from assms obtain keyword where "keyword \<in> {codes ''var'', codes ''let'', codes ''const''}"
    and "match_after U keyword s = Some (kw, varname, k)"
    by (auto simp: JSVarDeclRegex_def split: option.splits)
  with match_after_Some[of U keyword s kw varname k] show ?thesis by blast
qed

lemma declarations_well_formed: "\<forall>seg \<in> set (declarations U s). well_formed seg"
proof (induction U s rule: declarations.induct)
  case (1 U)
  then show ?case by simp
next
  case (2 U c cs)
  show ?case
  proof (cases "JSVarDeclRegex U (c # cs)")
    case None
    with 2 show ?thesis by simp
  next
    case (Some m)
    obtain kw varname k where m: "m = (kw, varname, k)" by (cases m)
    from JSVarDeclRegex_Some[OF Some[unfolded m]] 2(2)[OF Some[unfolded m] refl refl]
    show ?thesis using Some m by auto
  qed
qed

lemma declarations_original: "concat (map original (declarations U s)) = s"
proof (induction U s rule: declarations.induct)
  case (1 U)
  then show ?case by simp
next
  case (2 U c cs)
  show ?case
  proof (cases "JSVarDeclRegex U (c # cs)")
    case None
    with 2 show ?thesis by simp
  next
    case (Some m)
    obtain kw varname k where m: "m = (kw, varname, k)" by (cases m)
    from JSVarDeclRegex_Some[OF Some[unfolded m]]
    have t: "take k (c # cs) =
        kw @ take (k - length kw - length varname) (drop (length kw) (c # cs)) @ varname"
      by blast
    have "concat (map original (declarations U (c # cs))) =
        take k (c # cs) @ concat (map original (declarations U (drop k (c # cs))))"
      using Some m t by simp
    also have "\<dots> = take k (c # cs) @ drop k (c # cs)"
      using 2(2)[OF Some[unfolded m] refl refl] by simp
    finally show ?thesis by simp
  qed
qed

lemma replaceAll_declarations:
  "StringPrototypeReplaceAll U hoist s hoisted =
     (concat (map replacement (declarations U s)),
      hoisted @ concat (map redeclaration (declarations U s)))"
proof (induction U s arbitrary: hoisted rule: declarations.induct)
  case (1 U)
  then show ?case by simp
next
  case (2 U c cs)
  show ?case
  proof (cases "JSVarDeclRegex U (c # cs)")
    case None
    with 2(1)[OF None] show ?thesis by simp
  next
    case (Some m)
    obtain kw varname k where m: "m = (kw, varname, k)" by (cases m)
    from 2(2)[OF Some[unfolded m] refl refl] Some m
    show ?thesis by (simp add: hoist_def)
  qed
qed

lemma split_nonempty: "StringPrototypeSplit s \<noteq> []"
  by (induction s) (auto split: list.splits)

lemma split_single: "StringPrototypeSplit s = [l] \<Longrightarrow> l = s"
proof (induction s arbitrary: l)
  case Nil
  then show ?case by simp
next
  case (Cons c cs)
  show ?case
  proof (cases "c = 0xA")
    case True
    with Cons.prems split_nonempty[of cs] show ?thesis by simp
  next
    case False
    obtain l' ls where ls: "StringPrototypeSplit cs = l' # ls"
      using split_nonempty[of cs] by (cases "StringPrototypeSplit cs") auto
    with Cons.prems False have "ls = []" "l = c # l'" by auto
    with ls Cons.IH[of l'] show ?thesis by simp
  qed
qed

lemma StringTrim_Nil: "StringTrim s = [] \<longleftrightarrow> (\<forall>c \<in> set s. is_space c)"
proof
  assume "StringTrim s = []"
  then have a: "dropWhile is_space (rev (dropWhile is_space s)) = []" by (simp add: StringTrim_def)
  show "\<forall>c \<in> set s. is_space c"
  proof (cases "dropWhile is_space s")
    case Nil
    then show ?thesis by simp
  next
    case (Cons x xs)
    then have nx: "\<not> is_space x" by (metis hd_dropWhile list.sel(1) list.distinct(1))
    from a have "\<forall>y \<in> set (rev (dropWhile is_space s)). is_space y"
      by simp
    then have "is_space x" unfolding Cons by simp
    with nx show ?thesis by contradiction
  qed
next
  assume "\<forall>c \<in> set s. is_space c"
  then have d: "dropWhile is_space s = []" by simp
  show "StringTrim s = []" unfolding StringTrim_def d by simp
qed

lemma lines_nonempty:
  assumes "\<exists>c \<in> set src. \<not> is_space c"
  shows "lines_without_trailing_blank src \<noteq> []"
proof
  assume e: "lines_without_trailing_blank src = []"
  let ?ls = "StringPrototypeSplit src"
  from e split_nonempty[of src] have blank: "StringTrim (last ?ls) = []" and b: "butlast ?ls = []"
    by (auto simp: lines_without_trailing_blank_def Let_def split: if_splits)
  from b split_nonempty[of src] have "?ls = [last ?ls]"
    by (metis append_butlast_last_id append_Nil)
  from split_single[OF this] blank have "StringTrim src = []" by simp
  with assms show False by (simp add: StringTrim_Nil)
qed

lemma join_Cons: "ls \<noteq> [] \<Longrightarrow> ArrayPrototypeJoin (l # ls) = l @ 0xA # ArrayPrototypeJoin ls"
  by (cases ls) simp_all

lemma join_prefix: "ArrayPrototypeJoin ((p @ l) # ls) = p @ ArrayPrototypeJoin (l # ls)"
  by (cases ls) simp_all

lemma join_suffix: "ArrayPrototypeJoin (ls @ [l @ q]) = ArrayPrototypeJoin (ls @ [l]) @ q"
proof (induction ls)
  case Nil
  then show ?case by simp
next
  case (Cons a ls)
  then show ?case by (simp add: join_Cons)
qed

lemma wrapped_lines:
  assumes "ls \<noteq> []"
  shows "ArrayPrototypeJoin
           ((ls[length ls - 1 := a @ last ls @ q])
              [0 := p @ (ls[length ls - 1 := a @ last ls @ q]) ! 0]) =
         p @ ArrayPrototypeJoin (butlast ls @ [a @ last ls]) @ q"
proof -
  let ?ls' = "ls[length ls - 1 := a @ last ls @ q]"
  have l': "?ls' = butlast ls @ [a @ last ls @ q]"
  proof -
    have "(butlast ls @ [last ls])[length (butlast ls) := a @ last ls @ q] =
        butlast ls @ [a @ last ls @ q]"
      by (simp only: list_update_length)
    then show ?thesis using assms by simp
  qed
  obtain x xs where x: "?ls' = x # xs" using assms by (cases ?ls') auto
  have "ArrayPrototypeJoin (?ls'[0 := p @ ?ls' ! 0]) = p @ ArrayPrototypeJoin ?ls'"
    unfolding x by (simp add: join_prefix)
  also have "\<dots> = p @ ArrayPrototypeJoin (butlast ls @ [(a @ last ls) @ q])"
    using l' by simp
  also have "\<dots> = p @ ArrayPrototypeJoin (butlast ls @ [a @ last ls]) @ q"
    by (simp only: join_suffix)
  finally show ?thesis .
qed

lemmas transform_defs =
  tryProcessTopLevelAwait_def codes_def is_space_def StringTrim_def JSVarDeclRegex_def
  match_after_def match_varname_def match_start_def match_part_def match_escape_def is_hex_def
  hoist_def lines_without_trailing_blank_def wrapped_body_def wrapped_body_as_claimed_def
  ascii_properties_def Let_def

text \<open>
  Claim C6, as amended. For every fragment that is not blank, the body is the lines of the
  fragment, without one trailing blank line, with \<open>(async()=>{\<close> before the first line and
  the last line turned into \<open>return <last line>;})();\<close>, with no parentheses around the line.
  The result of \<open>tryProcessTopLevelAwait\<close> is the re-declarations of the declarations
  matched in the body, in their order, followed by the body in which every matched
  declaration is replaced by its identifier. A re-declaration is the keyword, with \<open>let\<close> in
  place of \<open>const\<close>, a space, the identifier and a semicolon. The pieces make up the body,
  and a matched declaration is one of the three keywords, white space and an identifier.
\<close>

theorem tryProcessTopLevelAwait_wraps_and_hoists:
  assumes "\<exists>c \<in> set src. \<not> is_space c"
  shows "tryProcessTopLevelAwait U src =
           concat (map redeclaration (declarations U (wrapped_body src))) @
           concat (map replacement (declarations U (wrapped_body src))) \<and>
         concat (map original (declarations U (wrapped_body src))) = wrapped_body src \<and>
         (\<forall>seg \<in> set (declarations U (wrapped_body src)). well_formed seg)"
proof -
  let ?ls = "lines_without_trailing_blank src"
  have ne: "?ls \<noteq> []" by (rule lines_nonempty[OF assms])
  then have ne2: "?ls[length ?ls - 1 := codes ''return '' @ last ?ls @ codes '';})();''] \<noteq> []"
    by simp
  have "tryProcessTopLevelAwait U src =
      (let (transformed, hoisted) = StringPrototypeReplaceAll U hoist
         (ArrayPrototypeJoin
           ((?ls[length ?ls - 1 := codes ''return '' @ last ?ls @ codes '';})();''])
              [0 := codes ''(async()=>{'' @
                 (?ls[length ?ls - 1 := codes ''return '' @ last ?ls @ codes '';})();'']) ! 0])) []
       in hoisted @ transformed)"
    using ne ne2
    unfolding tryProcessTopLevelAwait_def lines_without_trailing_blank_def Let_def
    by (simp only: if_False)
  also have "\<dots> = (let (transformed, hoisted) = StringPrototypeReplaceAll U hoist (wrapped_body src) []
       in hoisted @ transformed)"
    unfolding wrapped_lines[OF ne] wrapped_body_def Let_def by simp
  finally have "tryProcessTopLevelAwait U src =
           concat (map redeclaration (declarations U (wrapped_body src))) @
           concat (map replacement (declarations U (wrapped_body src)))"
    by (simp add: replaceAll_declarations)
  then show ?thesis
    using declarations_original[of U "wrapped_body src"]
      declarations_well_formed[of U "wrapped_body src"] by blast
qed

theorem tryProcessTopLevelAwait_wraps_and_hoists_witness:
  "(\<exists>c \<in> set (codes ''const x = await f()'' @ [0xA]). \<not> is_space c) \<and>
   wrapped_body (codes ''const x = await f()'' @ [0xA]) =
     codes ''(async()=>{return const x = await f();})();'' \<and>
   tryProcessTopLevelAwait ascii_properties (codes ''const x = await f()'' @ [0xA]) =
     codes ''let x;(async()=>{return x = await f();})();''"
  using tryProcessTopLevelAwait_wraps_and_hoists
    [of "codes ''const x = await f()'' @ [0xA]" ascii_properties]
  by (simp add: transform_defs)

text \<open>
  Claim C6 as stated wraps the last line as \<open>return (<original-last-line>);\<close>, for every
  fragment. For \<open>await 1\<close> the result has no parentheses, and it is not what the replacement
  gives on the body with parentheses. For a blank fragment the result has no \<open>return\<close> and
  no invocation at all.
\<close>

theorem last_line_is_wrapped_without_parentheses:
  "tryProcessTopLevelAwait ascii_properties (codes ''await 1'') =
     codes ''(async()=>{return await 1;})();'' \<and>
   wrapped_body_as_claimed (codes ''await 1'') = codes ''(async()=>{return (await 1);})();'' \<and>
   tryProcessTopLevelAwait ascii_properties (codes ''await 1'') \<noteq>
     concat (map redeclaration (declarations ascii_properties (wrapped_body_as_claimed (codes ''await 1'')))) @
     concat (map replacement (declarations ascii_properties (wrapped_body_as_claimed (codes ''await 1'')))) \<and>
   tryProcessTopLevelAwait ascii_properties (codes ''  '') = codes ''(async()=>{undefined''"
  by (simp add: transform_defs)

end
